theory Spec2Isabelle
  imports Main "HOL-Library.Sublist"
begin

text \<open>
  The question-to-SQL pipeline of the offline RAG agent: input validation
  (\<open>utils/security.py\<close>), schema filtering (\<open>schema_manager.py\<close>), prompt construction,
  generation (\<open>llm_client.py\<close>), extraction and validation of the SQL
  (\<open>query_processor.py\<close>), execution (\<open>query_executor.py\<close>) and the orchestrator
  (\<open>rag_agent.py\<close>). The generation backend, the store and the data-frame library are
  parameters. Logging and the metrics collector are instrumentation and are left out; the
  one value they contribute, the \<open>metrics\<close> entry of a response, is an opaque parameter.
  Every \<open>raise\<close> is a value: a function that can raise returns \<open>exn + 'a\<close>.
\<close>

section \<open>Strings\<close>

text \<open>
  A Python \<open>str\<close> is modelled as an Isabelle \<open>string\<close>; the character with code \<open>n\<close>
  stands for the Unicode code point \<open>n\<close> (0 to 255). The character classes below are
  the ones Python's \<open>str.isspace\<close>, \<open>str.isalnum\<close>, \<open>str.isdigit\<close> and the \<open>re\<close>
  module (for \<open>str\<close> patterns) use on these code points.
\<close>

definition code :: "char \<Rightarrow> nat" where
  "code c = of_char c"

definition isspace_char :: "char \<Rightarrow> bool" where
  "isspace_char c = (let n = code c in
     (9 \<le> n \<and> n \<le> 13) \<or> (28 \<le> n \<and> n \<le> 32) \<or> n = 133 \<or> n = 160)"

definition isdigit_char :: "char \<Rightarrow> bool" where
  "isdigit_char c = (let n = code c in
     (48 \<le> n \<and> n \<le> 57) \<or> n = 178 \<or> n = 179 \<or> n = 185)"

definition isalnum_char :: "char \<Rightarrow> bool" where
  "isalnum_char c = (let n = code c in
     (48 \<le> n \<and> n \<le> 57) \<or> (65 \<le> n \<and> n \<le> 90) \<or> (97 \<le> n \<and> n \<le> 122) \<or>
     n = 170 \<or> n = 178 \<or> n = 179 \<or> n = 181 \<or> n = 185 \<or> n = 186 \<or>
     (188 \<le> n \<and> n \<le> 190) \<or> (192 \<le> n \<and> n \<le> 214) \<or>
     (216 \<le> n \<and> n \<le> 246) \<or> (248 \<le> n \<and> n \<le> 255))"

text \<open>\<open>str.isalnum\<close> and \<open>str.isdigit\<close> are false on the empty string.\<close>

definition isalnum :: "string \<Rightarrow> bool" where
  "isalnum s = (s \<noteq> [] \<and> list_all isalnum_char s)"

definition isdigit :: "string \<Rightarrow> bool" where
  "isdigit s = (s \<noteq> [] \<and> list_all isdigit_char s)"

text \<open>
  \<open>str.lower\<close> maps code points 0 to 255 into the same range. \<open>str.upper\<close> sends
  \<open>0xDF\<close> to the two letters \<open>SS\<close>; it sends \<open>0xB5\<close> and \<open>0xFF\<close> to letters above 255,
  which an 8-bit character cannot hold: the model leaves these two unchanged (they
  and their images are letters that occur in no keyword or pattern of the program).
\<close>

definition lower_char :: "char \<Rightarrow> char" where
  "lower_char c = (let n = code c in
     if (65 \<le> n \<and> n \<le> 90) \<or> (192 \<le> n \<and> n \<le> 214) \<or> (216 \<le> n \<and> n \<le> 222)
     then char_of (n + 32) else c)"

definition upper_char :: "char \<Rightarrow> string" where
  "upper_char c = (let n = code c in
     if (97 \<le> n \<and> n \<le> 122) \<or> (224 \<le> n \<and> n \<le> 246) \<or> (248 \<le> n \<and> n \<le> 254)
     then [char_of (n - 32)]
     else if n = 223 then ''SS'' else [c])"

definition lower :: "string \<Rightarrow> string" where
  "lower s = map lower_char s"

definition upper :: "string \<Rightarrow> string" where
  "upper s = concat (map upper_char s)"

text \<open>\<open>s.strip()\<close>, \<open>s.rstrip(chars)\<close>, \<open>s.startswith(p)\<close>, \<open>p in s\<close>.\<close>

definition lstrip :: "string \<Rightarrow> string" where
  "lstrip s = dropWhile isspace_char s"

definition rstrip :: "string \<Rightarrow> string" where
  "rstrip s = rev (dropWhile isspace_char (rev s))"

definition strip :: "string \<Rightarrow> string" where
  "strip s = rstrip (lstrip s)"

definition rstrip_chars :: "string \<Rightarrow> string \<Rightarrow> string" where
  "rstrip_chars cs s = rev (dropWhile (\<lambda>c. c \<in> set cs) (rev s))"

fun startswith :: "string \<Rightarrow> string \<Rightarrow> bool" where
  "startswith s [] = True"
| "startswith [] (p # ps) = False"
| "startswith (c # cs) (p # ps) = (c = p \<and> startswith cs ps)"

fun contains :: "string \<Rightarrow> string \<Rightarrow> bool" where
  "contains [] p = (p = [])"
| "contains (c # cs) p = (startswith (c # cs) p \<or> contains cs p)"

text \<open>
  \<open>s.split(sep)\<close> for a non-empty separator, scanning left to right;
  \<open>s.replace(old, new)\<close> for a non-empty \<open>old\<close>.
\<close>

fun split_acc :: "string \<Rightarrow> string \<Rightarrow> nat \<Rightarrow> string \<Rightarrow> string list" where
  "split_acc sep [] skip cur = [rev cur]"
| "split_acc sep (c # cs) skip cur =
     (if 0 < skip then split_acc sep cs (skip - 1) cur
      else if startswith (c # cs) sep
      then rev cur # split_acc sep cs (length sep - 1) []
      else split_acc sep cs 0 (c # cur))"

definition split :: "string \<Rightarrow> string \<Rightarrow> string list" where
  "split sep s = split_acc sep s 0 []"

fun replace_acc :: "string \<Rightarrow> string \<Rightarrow> string \<Rightarrow> nat \<Rightarrow> string" where
  "replace_acc old new [] skip = []"
| "replace_acc old new (c # cs) skip =
     (if 0 < skip then replace_acc old new cs (skip - 1)
      else if startswith (c # cs) old
      then new @ replace_acc old new cs (length old - 1)
      else c # replace_acc old new cs 0)"

definition replace :: "string \<Rightarrow> string \<Rightarrow> string \<Rightarrow> string" where
  "replace old new s = replace_acc old new s 0"

text \<open>The decimal text of a number, as an f-string renders an \<open>int\<close>.\<close>

fun str_nat :: "nat \<Rightarrow> string" where
  "str_nat n =
     (if n < 10 then [char_of (48 + n)]
      else str_nat (n div 10) @ [char_of (48 + n mod 10)])"

section \<open>Regular expressions\<close>

text \<open>
  The program uses Python's \<open>re\<close> module with a fixed set of patterns. Python matches by
  backtracking: at each start position, from left to right, it explores the ways a
  pattern can match in a fixed order of preference (a greedy repetition tries the
  longest run first, a lazy one the shortest, an alternation its left branch first)
  and stops at the first success. The matcher below returns, for a pattern and a position,
  the list of all ways to match in that order of preference: its head is the match Python
  reports, and it is empty exactly when Python finds no match at that position.

  A matching state is the character before the position (for \<open>\b\<close>), the rest of the
  subject from the position on, and the texts captured by groups so far.
\<close>

type_synonym mstate = "char option \<times> string \<times> string list"

text \<open>
  Character classes: \<open>Any\<close> is \<open>.\<close> under \<open>re.DOTALL\<close>, \<open>Dot\<close> is \<open>.\<close> without it,
  \<open>Space\<close> is \<open>\s\<close>, \<open>Hex\<close> is \<open>[0-9a-fA-F]\<close>, \<open>Ch c\<close> is the literal \<open>c\<close> and \<open>ChI c\<close> is
  the literal \<open>c\<close> under \<open>re.IGNORECASE\<close>.
\<close>

datatype cls = Any | Dot | Space | Hex | Ch char | ChI char

fun cls_match :: "cls \<Rightarrow> char \<Rightarrow> bool" where
  "cls_match Any c = True"
| "cls_match Dot c = (c \<noteq> CHR 0x0A)"
| "cls_match Space c = isspace_char c"
| "cls_match Hex c = (c \<in> set ''0123456789abcdefABCDEF'')"
| "cls_match (Ch a) c = (c = a)"
| "cls_match (ChI a) c = (lower_char c = lower_char a)"

text \<open>
  \<open>Star c\<close> is the greedy \<open>c*\<close>, \<open>Lazy c\<close> is \<open>c*?\<close>, \<open>Eos\<close> is \<open>$\<close> (without
  \<open>re.MULTILINE\<close>: at the end of the subject, or just before a line feed that ends it),
  \<open>NotAhead r\<close> is \<open>(?!r)\<close>, \<open>Wb\<close> is \<open>\b\<close>, \<open>Group r\<close> is a capturing group and
  \<open>Epsilon\<close> matches the empty string.
\<close>

datatype rx = One cls | Star cls | Lazy cls | Seq rx rx | Alt rx rx
  | Eos | NotAhead rx | Wb | Group rx | Epsilon

definition is_word :: "char option \<Rightarrow> bool" where
  "is_word co = (case co of None \<Rightarrow> False | Some c \<Rightarrow> isalnum_char c \<or> c = CHR ''_'')"

definition next_char :: "string \<Rightarrow> char option" where
  "next_char s = (case s of [] \<Rightarrow> None | c # _ \<Rightarrow> Some c)"

fun star_greedy :: "cls \<Rightarrow> char option \<Rightarrow> string \<Rightarrow> string list \<Rightarrow> mstate list" where
  "star_greedy c prev [] g = [(prev, [], g)]"
| "star_greedy c prev (x # xs) g =
     (if cls_match c x then star_greedy c (Some x) xs g else []) @ [(prev, x # xs, g)]"

fun star_lazy :: "cls \<Rightarrow> char option \<Rightarrow> string \<Rightarrow> string list \<Rightarrow> mstate list" where
  "star_lazy c prev [] g = [(prev, [], g)]"
| "star_lazy c prev (x # xs) g =
     (prev, x # xs, g) # (if cls_match c x then star_lazy c (Some x) xs g else [])"

fun ms :: "rx \<Rightarrow> mstate \<Rightarrow> mstate list" where
  "ms (One c) (prev, s, g) =
     (case s of [] \<Rightarrow> [] | x # xs \<Rightarrow> if cls_match c x then [(Some x, xs, g)] else [])"
| "ms (Star c) (prev, s, g) = star_greedy c prev s g"
| "ms (Lazy c) (prev, s, g) = star_lazy c prev s g"
| "ms (Seq a b) st = concat (map (ms b) (ms a st))"
| "ms (Alt a b) st = ms a st @ ms b st"
| "ms Eos (prev, s, g) = (if s = [] \<or> s = [CHR 0x0A] then [(prev, s, g)] else [])"
| "ms (NotAhead r) st = (if ms r st = [] then [st] else [])"
| "ms Wb (prev, s, g) =
     (if is_word prev \<noteq> is_word (next_char s) then [(prev, s, g)] else [])"
| "ms (Group r) (prev, s, g) =
     map (\<lambda>(prev', s', g'). (prev', s', g' @ [take (length s - length s') s]))
       (ms r (prev, s, g))"
| "ms Epsilon st = [st]"

text \<open>Patterns without a capturing group; matching them leaves the captured texts alone.\<close>

fun no_groups :: "rx \<Rightarrow> bool" where
  "no_groups (Seq a b) = (no_groups a \<and> no_groups b)"
| "no_groups (Alt a b) = (no_groups a \<and> no_groups b)"
| "no_groups (NotAhead r) = True"
| "no_groups (Group r) = False"
| "no_groups r = True"

text \<open>Sequences, literals and \<open>c+\<close>.\<close>

definition seqs :: "rx list \<Rightarrow> rx" where
  "seqs rs = foldr Seq rs Epsilon"

definition lit :: "string \<Rightarrow> rx" where
  "lit w = seqs (map (\<lambda>c. One (Ch c)) w)"

definition liti :: "string \<Rightarrow> rx" where
  "liti w = seqs (map (\<lambda>c. One (ChI c)) w)"

definition one_or_more :: "cls \<Rightarrow> rx" where
  "one_or_more c = Seq (One c) (Star c)"

text \<open>
  The leftmost match: the start positions are tried from left to right, the end of the
  subject included. The result is the subject from the start of the match on, and the
  state at its end.
\<close>

fun search_from :: "rx \<Rightarrow> char option \<Rightarrow> string \<Rightarrow> (string \<times> mstate) option" where
  "search_from r prev [] =
     (case ms r (prev, [], []) of [] \<Rightarrow> None | st # _ \<Rightarrow> Some ([], st))"
| "search_from r prev (x # xs) =
     (case ms r (prev, x # xs, []) of
        [] \<Rightarrow> search_from r (Some x) xs
      | st # _ \<Rightarrow> Some (x # xs, st))"

text \<open>\<open>re.search(r, s)\<close>, used for its truth value only.\<close>

definition re_search :: "rx \<Rightarrow> string \<Rightarrow> bool" where
  "re_search r s = (search_from r None s \<noteq> None)"

text \<open>
  The first element of \<open>re.findall(r, s)\<close>, or \<open>None\<close> when the list is empty: the text
  of the leftmost match, or of its group when the pattern has one.
\<close>

definition findall_first :: "rx \<Rightarrow> string \<Rightarrow> string option" where
  "findall_first r s =
     (case search_from r None s of
        None \<Rightarrow> None
      | Some (from, (prev, rest, g)) \<Rightarrow>
          (case g of [] \<Rightarrow> Some (take (length from - length rest) from)
           | t # _ \<Rightarrow> Some t))"

text \<open>
  \<open>re.sub(r, '', s)\<close>: every non-overlapping match, leftmost first, is removed. An empty
  match is replaced by the empty string as well, which changes nothing, and the scan moves
  on by one character.
\<close>

function sub_erase :: "rx \<Rightarrow> char option \<Rightarrow> string \<Rightarrow> string" where
  "sub_erase r prev [] = []"
| "sub_erase r prev (x # xs) =
     (case ms r (prev, x # xs, []) of
        [] \<Rightarrow> x # sub_erase r (Some x) xs
      | (prev', rest, g) # _ \<Rightarrow>
          if length rest < length (x # xs) then sub_erase r prev' rest
          else x # sub_erase r (Some x) xs)"
  by pat_completeness auto
termination
  by (relation "measure (\<lambda>(r, prev, s). length s)") auto

section \<open>Exceptions\<close>

text \<open>
  The exception classes of \<open>utils/exceptions.py\<close>, each with its message (\<open>str(e)\<close>);
  \<open>OtherException\<close> stands for any Python exception outside this hierarchy.
\<close>

datatype exn =
    RAGAgentError string
  | ModelError string
  | DatabaseError string
  | QueryProcessingError string
  | SecurityError string
  | ValidationError string
  | TimeoutError string
  | OtherException string

fun exn_str :: "exn \<Rightarrow> string" where
  "exn_str (RAGAgentError m) = m"
| "exn_str (ModelError m) = m"
| "exn_str (DatabaseError m) = m"
| "exn_str (QueryProcessingError m) = m"
| "exn_str (SecurityError m) = m"
| "exn_str (ValidationError m) = m"
| "exn_str (TimeoutError m) = m"
| "exn_str (OtherException m) = m"

section \<open>The injection denylist (\<open>utils/security.py\<close>)\<close>

definition bs :: string where
  "bs = [CHR 0x5C]"

text \<open>
  \<open>dangerous_patterns\<close>: each pattern with its source text, which the error message
  quotes (\<open>bs\<close> is the backslash). All of them are searched with \<open>re.IGNORECASE\<close> and
  without \<open>re.DOTALL\<close>.
\<close>

definition dangerous_patterns :: "(string \<times> rx) list" where
  "dangerous_patterns =
   [(''--.*$'', seqs [liti ''--'', Star Dot, Eos]),
    ('';'' @ bs @ ''s*(?!$)'', seqs [liti '';'', Star Space, NotAhead Eos]),
    (''/'' @ bs @ ''*.*'' @ bs @ ''*/'', seqs [liti ''/*'', Star Dot, liti ''*/'']),
    (''UNION'' @ bs @ ''s+ALL'' @ bs @ ''s+SELECT'',
       seqs [liti ''UNION'', one_or_more Space, liti ''ALL'', one_or_more Space, liti ''SELECT'']),
    (''UNION'' @ bs @ ''s+SELECT'', seqs [liti ''UNION'', one_or_more Space, liti ''SELECT'']),
    (''DROP'' @ bs @ ''s+TABLE'', seqs [liti ''DROP'', one_or_more Space, liti ''TABLE'']),
    (''DELETE'' @ bs @ ''s+FROM'', seqs [liti ''DELETE'', one_or_more Space, liti ''FROM'']),
    (''UPDATE'' @ bs @ ''s+.*'' @ bs @ ''s+SET'',
       seqs [liti ''UPDATE'', one_or_more Space, Star Dot, one_or_more Space, liti ''SET'']),
    (''INSERT'' @ bs @ ''s+INTO'', seqs [liti ''INSERT'', one_or_more Space, liti ''INTO'']),
    (''ALTER'' @ bs @ ''s+TABLE'', seqs [liti ''ALTER'', one_or_more Space, liti ''TABLE'']),
    (''EXEC'' @ bs @ ''s+.*'', seqs [liti ''EXEC'', one_or_more Space, Star Dot]),
    (''EXECUTE'' @ bs @ ''s+.*'', seqs [liti ''EXECUTE'', one_or_more Space, Star Dot]),
    (''xp_cmdshell'', liti ''xp_cmdshell''),
    (''sp_'', liti ''sp_''),
    (''0x[0-9a-fA-F]+'', seqs [liti ''0x'', one_or_more Hex])]"

text \<open>The pattern \<open>\b(COUNT|SUM|AVG|MIN|MAX)\s*\(\s*\*\s*\)\<close>, with \<open>re.IGNORECASE\<close>.\<close>

definition aggregate_star :: rx where
  "aggregate_star =
   seqs [Wb,
         Group (Alt (liti ''COUNT'') (Alt (liti ''SUM'') (Alt (liti ''AVG'')
                (Alt (liti ''MIN'') (liti ''MAX''))))),
         Star Space, liti ''('', Star Space, liti ''*'', Star Space, liti '')'']"

text \<open>The text the patterns are searched in: trailing semicolons and aggregate calls removed.\<close>

definition query_to_check :: "string \<Rightarrow> string" where
  "query_to_check query = sub_erase aggregate_star None (rstrip_chars '';'' query)"

definition validate_sql_injection :: "string \<Rightarrow> exn + bool" where
  "validate_sql_injection query =
     (case find (\<lambda>(pattern, r). re_search r (query_to_check query)) dangerous_patterns of
        Some (pattern, r) \<Rightarrow>
          Inl (SecurityError (''Potential SQL injection detected: '' @ pattern))
      | None \<Rightarrow> Inr True)"

definition sanitize_input :: "string \<Rightarrow> string" where
  "sanitize_input input_str =
     filter (\<lambda>c. 32 \<le> code c) (replace [CHR 0x00] [] input_str)"

definition validate_query_length :: "string \<Rightarrow> nat \<Rightarrow> exn + bool" where
  "validate_query_length query max_length =
     (if max_length < length query
      then Inl (SecurityError
             (''Query exceeds maximum length of '' @ str_nat max_length @ '' characters''))
      else Inr True)"

text \<open>
  \<open>QueryValidator.validate_query\<close>: the length check runs with its default bound of 1000
  characters. The sanitized text is a local value; the function returns only a verdict.
\<close>

definition validate_query :: "string \<Rightarrow> exn + bool" where
  "validate_query query =
     (let query' = sanitize_input query in
      case validate_query_length query' 1000 of
        Inl e \<Rightarrow> Inl e
      | Inr _ \<Rightarrow>
          (case validate_sql_injection query' of
             Inl e \<Rightarrow> Inl e
           | Inr _ \<Rightarrow> Inr True))"

section \<open>The allowlist walk and \<open>validate_sql\<close> (\<open>query_processor.py\<close>)\<close>

definition ALLOWED_SQL_KEYWORDS :: "string list" where
  "ALLOWED_SQL_KEYWORDS =
   [''SELECT'', ''FROM'', ''WHERE'', ''GROUP BY'', ''ORDER BY'', ''HAVING'',
    ''JOIN'', ''LEFT JOIN'', ''RIGHT JOIN'', ''INNER JOIN'', ''ON'',
    ''AND'', ''OR'', ''NOT'', ''IN'', ''LIKE'', ''IS'', ''NULL'',
    ''AS'', ''DISTINCT'', ''COUNT'', ''SUM'', ''AVG'', ''MIN'', ''MAX'',
    ''CASE'', ''WHEN'', ''THEN'', ''ELSE'', ''END'',
    ''ASC'', ''DESC'', ''LIMIT'', ''OFFSET'',
    ''WITH'', ''UNION'', ''ALL'',
    ''COALESCE'', ''IFNULL'', ''NULLIF'', ''CAST'',
    ''UPPER'', ''LOWER'', ''TRIM'', ''LENGTH'',
    ''SUBSTR'', ''REPLACE'', ''CONCAT'',
    ''ROUND'', ''FLOOR'', ''CEIL'',
    ''DATE'', ''DATETIME'', ''STRFTIME'',
    ''='', ''!='', ''<>'', ''<'', ''>'', ''<='', ''>='',
    ''+'', ''-'', ''*'', ''/'', ''%'',
    ''||'', ''&&'']"

text \<open>
  The loop that splits the SELECT part into words, with its three variables
  \<open>words\<close>, \<open>current_word\<close> and \<open>in_parentheses\<close>; the empty case is the code after the
  loop.
\<close>

definition flush :: "string list \<Rightarrow> string \<Rightarrow> string list" where
  "flush words current_word = (if current_word \<noteq> [] then words @ [current_word] else words)"

fun split_words :: "string \<Rightarrow> string list \<Rightarrow> string \<Rightarrow> bool \<Rightarrow> string list" where
  "split_words [] words current_word in_parentheses = flush words current_word"
| "split_words (char # rest) words current_word in_parentheses =
     (if char = CHR ''('' then split_words rest (flush words current_word @ [[char]]) [] True
      else if char = CHR '')'' then split_words rest (flush words current_word @ [[char]]) [] False
      else if isspace_char char \<and> \<not> in_parentheses
      then (if current_word \<noteq> [] then split_words rest (words @ [current_word]) [] in_parentheses
            else split_words rest words current_word in_parentheses)
      else split_words rest words (current_word @ [char]) in_parentheses)"

text \<open>
  The \<open>while i < len(words)\<close> loop over the words from index \<open>i\<close> on. The result is the
  first disallowed word, if any. After an aggregate function name the inner loop skips
  up to and including the next \<open>)\<close>.
\<close>

definition is_identifier :: "string \<Rightarrow> bool" where
  "is_identifier word = list_all (\<lambda>part. isalnum (replace ''_'' [] part)) (split ''.'' word)"

definition is_number_or_operator :: "string \<Rightarrow> bool" where
  "is_number_or_operator word =
     (isdigit (replace ''-'' [] (replace ''.'' [] word)) \<or>
      word \<in> set [''='', ''!='', ''<>'', ''<'', ''>'', ''<='', ''>='', ''+'', ''-'', ''*'', ''/'',
                  ''%'', ''('', '')'', '','', ''AS''])"

function check_words :: "string list \<Rightarrow> string option" where
  "check_words [] = None"
| "check_words (word # rest) =
     (if startswith word [CHR 0x22] \<or> startswith word [CHR 0x27] \<or> startswith word ''`''
      then check_words rest
      else if word \<in> set [''COUNT'', ''SUM'', ''AVG'', ''MIN'', ''MAX'']
      then check_words (drop 1 (dropWhile (\<lambda>w. w \<noteq> '')'') (word # rest)))
      else if is_identifier word then check_words rest
      else if is_number_or_operator word then check_words rest
      else if word \<in> set ALLOWED_SQL_KEYWORDS then check_words rest
      else Some word)"
  by pat_completeness auto
termination
proof (relation "measure length")
  fix word :: string and rest :: "string list"
  have "length (dropWhile (\<lambda>w. w \<noteq> '')'') (word # rest)) \<le> length (word # rest)"
    by (rule length_dropWhile_le)
  then show "(drop 1 (dropWhile (\<lambda>w. w \<noteq> '')'') (word # rest)), word # rest) \<in> measure length"
    by (cases "dropWhile (\<lambda>w. w \<noteq> '')'') (word # rest)") auto
qed auto

text \<open>
  The body of \<open>validate_sql\<close> inside its \<open>try\<close>: the denylist may raise; the other steps
  return a verdict. \<open>split("FROM")[0]\<close> is the text before the first \<open>FROM\<close>.
\<close>

definition select_part :: "string \<Rightarrow> string" where
  "select_part sql = strip (case split ''FROM'' (upper sql) of [] \<Rightarrow> [] | part # _ \<Rightarrow> part)"

definition validate_sql_body :: "string \<Rightarrow> exn + (bool \<times> string)" where
  "validate_sql_body sql =
     (case validate_sql_injection sql of
        Inl e \<Rightarrow> Inl e
      | Inr _ \<Rightarrow>
          if \<not> startswith (upper (strip sql)) ''SELECT''
          then Inr (False, ''Query must start with SELECT'')
          else (case check_words (split_words (select_part sql) [] [] False) of
                  Some word \<Rightarrow> Inr (False, ''Disallowed SQL keyword or pattern: '' @ word)
                | None \<Rightarrow> Inr (True, [])))"

text \<open>\<open>validate_sql\<close> with its two \<open>except\<close> clauses.\<close>

definition validate_sql :: "string \<Rightarrow> bool \<times> string" where
  "validate_sql sql =
     (case validate_sql_body sql of
        Inr verdict \<Rightarrow> verdict
      | Inl (SecurityError m) \<Rightarrow> (False, m)
      | Inl e \<Rightarrow> (False, ''Validation error: '' @ exn_str e))"

section \<open>Prompt construction and SQL extraction (\<open>query_processor.py\<close>)\<close>

definition nl :: string where
  "nl = [CHR 0x0A]"

definition create_sql_generation_prompt :: "string \<Rightarrow> string \<Rightarrow> string" where
  "create_sql_generation_prompt user_query schema_info = strip (
     nl @
     ''    ### USER QUESTION START'' @ nl @
     ''    '' @ user_query @ nl @
     ''    ### USER QUESTION END'' @ nl @
     nl @
     ''    '' @ schema_info @ nl @
     nl @
     ''    ### INSTRUCTIONS'' @ nl @
     ''    Provide only the SQL query inside triple backticks (```). Don'' @ [CHR 0x27] @
       ''t include anything else in your response.'' @ nl @
     ''    Strictly use the table names provided in the schema.'' @ nl @
     ''    If the required tables are not in this schema, respond with '' @
       [CHR 0x22] @ ''TABLES_NOT_IN_CHUNK'' @ [CHR 0x22] @ ''.'' @ nl @
     ''    # Example format:'' @ nl @
     ''    # ```sql'' @ nl @
     ''    # SELECT column FROM table WHERE condition;'' @ nl @
     ''    # ```'' @ nl @
     ''    # '')"

text \<open>
  The two patterns of \<open>_parse_sql\<close>: \<open>```(?:sql)?\s*(.*?)\s*```\<close> with \<open>re.DOTALL\<close>, and
  \<open>(?:SELECT|WITH)\s+.*?(?:;|$)\<close> with \<open>re.DOTALL | re.IGNORECASE\<close>.
\<close>

definition code_block :: rx where
  "code_block =
   seqs [lit ''```'', Alt (lit ''sql'') Epsilon, Star Space, Group (Lazy Any), Star Space,
         lit ''```'']"

definition sql_statement :: rx where
  "sql_statement =
   seqs [Alt (liti ''SELECT'') (liti ''WITH''), one_or_more Space, Lazy Any, Alt (liti '';'') Eos]"

definition parse_sql :: "string \<Rightarrow> string" where
  "parse_sql response =
     (case findall_first code_block response of
        Some block \<Rightarrow> strip (replace ''```'' [] (replace ''```sql'' [] (strip block)))
      | None \<Rightarrow>
          (case findall_first sql_statement response of
             Some statement \<Rightarrow> strip statement
           | None \<Rightarrow>
               (case filter (\<lambda>line. contains (upper line) ''SELECT'') (split nl response) of
                  line # _ \<Rightarrow> strip (strip line)
                | [] \<Rightarrow> strip response)))"

section \<open>The schema catalogue (\<open>schema_manager.py\<close>)\<close>

record column =
  col_name :: string
  col_type :: string
  is_primary_key :: bool
  not_null :: bool
  col_default :: "string option"

record table_info =
  name :: string
  columns :: "column list"

record relationship =
  rel_table :: string
  rel_column :: string
  references_table :: string
  references_column :: string

record schema =
  tables :: "table_info list"
  relationships :: "relationship list"

text \<open>\<open>sep.join(parts)\<close>.\<close>

fun join :: "string \<Rightarrow> string list \<Rightarrow> string" where
  "join sep [] = []"
| "join sep [part] = part"
| "join sep (part # rest) = part @ sep @ join sep rest"

definition column_def :: "column \<Rightarrow> string" where
  "column_def col =
     (let flags = (if is_primary_key col then [''PK''] else []) @
                  (if not_null col then [''NN''] else []);
          flag_str = join '' '' flags
      in strip (col_name col @ '' '' @ col_type col @ '' '' @ flag_str))"

definition format_table :: "table_info \<Rightarrow> string" where
  "format_table table =
     name table @ ''('' @ join '', '' (map column_def (columns table)) @ '');'' @ nl"

definition fallback_tables :: "string list" where
  "fallback_tables = [''customer'', ''countries'', ''prospect'', ''visit'']"

text \<open>
  \<open>filter_relevant_tables\<close> on the cached schema: the first loop collects the names of
  the tables whose lowercased name occurs in the lowercased question, the fallback fills
  an empty set, and the last loop renders the tables whose name is in the set.
\<close>

definition matching_tables :: "schema \<Rightarrow> string \<Rightarrow> string set" where
  "matching_tables sch user_query =
     (let query_lower = lower user_query in
      fold (\<lambda>table relevant_tables.
              if contains query_lower (lower (name table))
              then insert (name table) relevant_tables else relevant_tables)
        (tables sch) {})"

definition relevant_tables :: "schema \<Rightarrow> string \<Rightarrow> string set" where
  "relevant_tables sch user_query =
     (let relevant = matching_tables sch user_query in
      if relevant = {}
      then relevant \<union> set (filter (\<lambda>t. t \<in> set (map name (tables sch))) fallback_tables)
      else relevant)"

definition filter_relevant_tables :: "schema \<Rightarrow> string \<Rightarrow> string" where
  "filter_relevant_tables sch user_query =
     ''### DATABASE SCHEMA'' @ nl @ nl @
     concat (map format_table
       (filter (\<lambda>table. name table \<in> relevant_tables sch user_query) (tables sch)))"

section \<open>The completion client (\<open>llm_client.py\<close>)\<close>

text \<open>
  The generation backend is outside the program. The client's state is the flag
  \<open>is_loaded\<close> and, to observe what the backend receives, the list \<open>sent\<close> of the texts
  passed to it. \<open>load_joins\<close> tells whether the loading thread, joined for the given
  number of seconds, has set the flag by then; \<open>llm_tokenize\<close>, \<open>llm_detokenize\<close> and
  \<open>llm_call\<close> are the backend's operations, each of which may raise.
\<close>

record llm_client =
  is_loaded :: bool
  load_joins :: "nat \<Rightarrow> bool"
  llm_tokenize :: "string \<Rightarrow> exn + nat list"
  llm_detokenize :: "nat list \<Rightarrow> exn + string"
  llm_call :: "string \<Rightarrow> exn + string"
  sent :: "string list"

definition wait_for_model :: "llm_client \<Rightarrow> nat \<Rightarrow> bool \<times> llm_client" where
  "wait_for_model c timeout =
     (let loaded = (is_loaded c \<or> load_joins c timeout)
      in (loaded, c\<lparr>is_loaded := loaded\<rparr>))"

definition wrap_prompt :: "string \<Rightarrow> string" where
  "wrap_prompt prompt =
     ''You are a SQL query generator. Your task is to convert natural language questions into SQL queries.'' @ nl @
     ''You must ONLY output the SQL query without any explanations or additional text.'' @ nl @
     ''The SQL query should be wrapped in triple backticks with the sql language specifier.'' @ nl @
     ''        ### Instruction:'' @ nl @
     ''        '' @ prompt @ nl @
     nl @
     ''        ### Response:''"

definition max_context_tokens :: nat where
  "max_context_tokens = 16384"

definition max_response_tokens :: nat where
  "max_response_tokens = 1024"

definition max_prompt_tokens :: nat where
  "max_prompt_tokens = max_context_tokens - max_response_tokens"

text \<open>
  \<open>generate_sql\<close>, in the order of its statements: \<open>wrapped_prompt\<close> is built from the
  prompt as given; then the prompt is tokenized and, when too long, the local variable
  \<open>prompt\<close> is replaced by the detokenized first \<open>max_prompt_tokens\<close> tokens; then the
  backend is called with \<open>wrapped_prompt\<close>. Tokenizing and detokenizing are outside the
  \<open>try\<close>, so their exceptions leave the function.
\<close>

definition generate_sql :: "llm_client \<Rightarrow> string \<Rightarrow> (exn + string) \<times> llm_client" where
  "generate_sql c prompt =
     (let (ready, c1) = (if is_loaded c then (True, c) else wait_for_model c 30) in
      if \<not> ready then (Inr ''Model not ready.'', c1)
      else
        let wrapped_prompt = wrap_prompt prompt in
        case llm_tokenize c1 prompt of
          Inl e \<Rightarrow> (Inl e, c1)
        | Inr encoded \<Rightarrow>
            (case (if max_prompt_tokens < length encoded
                   then llm_detokenize c1 (take max_prompt_tokens encoded)
                   else Inr prompt) of
               Inl e \<Rightarrow> (Inl e, c1)
             | Inr prompt' \<Rightarrow>
                 (let c2 = c1\<lparr>sent := sent c1 @ [wrapped_prompt]\<rparr> in
                  case llm_call c2 wrapped_prompt of
                    Inl e \<Rightarrow> (Inr ''Error generating SQL.'', c2)
                  | Inr text \<Rightarrow> (Inr (strip text), c2))))"

section \<open>The query processor's \<open>process_query\<close> (\<open>query_processor.py\<close>)\<close>

text \<open>
  The body of the \<open>try\<close>, then the \<open>except Exception\<close> clause, which re-raises every
  exception as a \<open>QueryProcessingError\<close>.
\<close>

definition generate_and_validate ::
  "schema \<Rightarrow> llm_client \<Rightarrow> string \<Rightarrow> (exn + string) \<times> llm_client" where
  "generate_and_validate sch c user_query =
     (if user_query = [] then (Inl (ValidationError ''Invalid query input''), c)
      else
        let schema_info = filter_relevant_tables sch user_query;
            prompt = create_sql_generation_prompt user_query schema_info
        in case generate_sql c prompt of
             (Inl e, c') \<Rightarrow> (Inl e, c')
           | (Inr raw_sql, c') \<Rightarrow>
               (let sql = parse_sql raw_sql;
                    (is_valid, error) = validate_sql sql
                in if \<not> is_valid
                   then (Inl (QueryProcessingError (''Invalid SQL generated: '' @ error)), c')
                   else (Inr sql, c')))"

definition qp_process_query ::
  "schema \<Rightarrow> llm_client \<Rightarrow> string \<Rightarrow> (exn + string) \<times> llm_client" where
  "qp_process_query sch c user_query =
     (case generate_and_validate sch c user_query of
        (Inl e, c') \<Rightarrow> (Inl (QueryProcessingError (''Failed to process query: '' @ exn_str e)), c')
      | (Inr sql, c') \<Rightarrow> (Inr sql, c'))"

section \<open>The query runner (\<open>query_executor.py\<close>)\<close>

text \<open>
  The store and the data-frame library are outside the program: \<open>db_run\<close> stands for
  executing a statement and fetching its rows and column names, \<open>describe\<close> for building
  the records, columns and summary of a result; each may raise. The rows, the summary and
  the metrics are opaque values of types \<open>'d\<close>, \<open>'s\<close> and \<open>'m\<close>.
\<close>

record 'd execution_result =
  er_status :: string
  er_data :: 'd
  er_columns :: "string list"

record ('d, 's) formatted_results =
  fr_status :: string
  fr_message :: "string option"
  fr_data :: 'd
  fr_columns :: "string list"
  fr_summary :: "'s option"

record ('d, 's, 'm) agent =
  schema_cache :: schema
  llm :: llm_client
  db_run :: "string \<Rightarrow> exn + ('d \<times> string list)"
  describe :: "'d \<Rightarrow> string list \<Rightarrow> exn + ('d \<times> string list \<times> 's)"
  processing_time_stats :: 'm
  QUERY_TIMEOUT :: nat

definition execute_query :: "('d, 's, 'm) agent \<Rightarrow> string \<Rightarrow> exn + 'd execution_result" where
  "execute_query a sql =
     (case db_run a sql of
        Inr (rows, cols) \<Rightarrow> Inr \<lparr>er_status = ''success'', er_data = rows, er_columns = cols\<rparr>
      | Inl e \<Rightarrow>
          if contains (lower (exn_str e)) ''timeout''
          then Inl (TimeoutError (''Query execution timed out after '' @
                      str_nat (QUERY_TIMEOUT a) @ '' seconds''))
          else Inl (DatabaseError (''Failed to execute query: '' @ exn_str e)))"

definition format_results ::
  "('d, 's, 'm) agent \<Rightarrow> 'd execution_result \<Rightarrow> ('d, 's) formatted_results" where
  "format_results a execution_result =
     (if er_status execution_result \<noteq> ''success''
      then \<lparr>fr_status = er_status execution_result, fr_message = None,
            fr_data = er_data execution_result, fr_columns = er_columns execution_result,
            fr_summary = None\<rparr>
      else case describe a (er_data execution_result) (er_columns execution_result) of
             Inr (records, cols, summary) \<Rightarrow>
               \<lparr>fr_status = ''success'', fr_message = Some ''Query executed successfully'',
                fr_data = records, fr_columns = cols, fr_summary = Some summary\<rparr>
           | Inl e \<Rightarrow>
               \<lparr>fr_status = ''error'',
                fr_message = Some (''Failed to format results: '' @ exn_str e),
                fr_data = er_data execution_result, fr_columns = er_columns execution_result,
                fr_summary = None\<rparr>)"

section \<open>The orchestrator (\<open>rag_agent.py\<close>)\<close>

text \<open>
  The response dictionary. A key that a response does not carry is \<open>None\<close>; the
  \<open>results\<close> key that the invalid-SQL response sets to \<open>None\<close> is \<open>None\<close> as well, and
  an absent summary stands for the empty dictionary.
\<close>

record ('d, 's, 'm) response =
  r_status :: string
  r_message :: string
  r_user_query :: string
  r_sql :: "string option"
  r_results :: "'d option"
  r_columns :: "string list option"
  r_summary :: "'s option"
  r_metrics :: "'m option"

definition message_response :: "string \<Rightarrow> string \<Rightarrow> string \<Rightarrow> ('d, 's, 'm) response" where
  "message_response st msg user_query =
     \<lparr>r_status = st, r_message = msg, r_user_query = user_query, r_sql = None,
      r_results = None, r_columns = None, r_summary = None, r_metrics = None\<rparr>"

text \<open>
  The body of the \<open>try\<close> of \<open>process_query\<close>: a response, or the exception that leaves
  the body, together with the agent after the call. The missing \<open>message\<close> key of a result
  that \<open>format_results\<close> passed through is a \<open>KeyError\<close>, whose text is the quoted key.
\<close>

definition process_query_body ::
  "('d, 's, 'm) agent \<Rightarrow> string \<Rightarrow> (exn + ('d, 's, 'm) response) \<times> ('d, 's, 'm) agent" where
  "process_query_body a user_query =
     (case validate_query user_query of
        Inl e \<Rightarrow> (Inl e, a)
      | Inr _ \<Rightarrow>
          let (ready, c1) = (if is_loaded (llm a) then (True, llm a)
                             else wait_for_model (llm a) (QUERY_TIMEOUT a))
          in if \<not> ready
             then (Inr (message_response ''pending''
                          ''Model loading timeout. Please try again.'' user_query),
                   a\<lparr>llm := c1\<rparr>)
             else
               (case qp_process_query (schema_cache a) c1 user_query of
                  (Inl e, c2) \<Rightarrow> (Inl e, a\<lparr>llm := c2\<rparr>)
                | (Inr sql, c2) \<Rightarrow>
                    (let a2 = a\<lparr>llm := c2\<rparr>;
                         (is_valid, error) = validate_sql sql
                     in if \<not> is_valid
                        then (Inr ((message_response ''error'' (''Invalid SQL: '' @ error)
                                      user_query)\<lparr>r_sql := Some sql\<rparr>), a2)
                        else
                          (case execute_query a2 sql of
                             Inl e \<Rightarrow> (Inl e, a2)
                           | Inr execution_result \<Rightarrow>
                               (let formatted = format_results a2 execution_result in
                                case fr_message formatted of
                                  None \<Rightarrow> (Inl (OtherException ([CHR 0x27] @ ''message'' @ [CHR 0x27])), a2)
                                | Some msg \<Rightarrow>
                                    (Inr \<lparr>r_status = fr_status formatted, r_message = msg,
                                          r_user_query = user_query, r_sql = Some sql,
                                          r_results = Some (fr_data formatted),
                                          r_columns = Some (fr_columns formatted),
                                          r_summary = fr_summary formatted,
                                          r_metrics = Some (processing_time_stats a2)\<rparr>,
                                     a2))))))"

text \<open>\<open>process_query\<close> with its three \<open>except\<close> clauses, in their order.\<close>

definition process_query ::
  "('d, 's, 'm) agent \<Rightarrow> string \<Rightarrow> ('d, 's, 'm) response \<times> ('d, 's, 'm) agent" where
  "process_query a user_query =
     (case process_query_body a user_query of
        (Inr resp, a') \<Rightarrow> (resp, a')
      | (Inl (SecurityError m), a') \<Rightarrow>
          (message_response ''error'' (''Security error: '' @ m) user_query, a')
      | (Inl (TimeoutError m), a') \<Rightarrow>
          (message_response ''error'' (''Query timeout: '' @ m) user_query, a')
      | (Inl e, a') \<Rightarrow>
          (message_response ''error'' (''An unexpected error occurred: '' @ exn_str e)
             user_query, a'))"

section \<open>An example deployment\<close>

text \<open>
  A store with two tables, a backend that counts one token per character and answers every
  prompt with a fenced query, and an agent over them. The theorems below are instantiated
  on these.
\<close>

definition example_schema :: schema where
  "example_schema =
     \<lparr>tables =
        [\<lparr>name = ''customer'',
          columns =
            [\<lparr>col_name = ''id'', col_type = ''INTEGER'', is_primary_key = True,
              not_null = True, col_default = None\<rparr>,
             \<lparr>col_name = ''country'', col_type = ''TEXT'', is_primary_key = False,
              not_null = False, col_default = None\<rparr>]\<rparr>,
         \<lparr>name = ''orders'',
          columns =
            [\<lparr>col_name = ''id'', col_type = ''INTEGER'', is_primary_key = True,
              not_null = True, col_default = None\<rparr>,
             \<lparr>col_name = ''total'', col_type = ''REAL'', is_primary_key = False,
              not_null = False, col_default = None\<rparr>]\<rparr>],
      relationships = []\<rparr>"

definition example_response :: string where
  "example_response = ''```sql'' @ nl @ ''SELECT COUNT(*) FROM orders'' @ nl @ ''```''"

definition example_llm :: llm_client where
  "example_llm =
     \<lparr>is_loaded = True,
      load_joins = (\<lambda>timeout. False),
      llm_tokenize = (\<lambda>text. Inr (map of_char text)),
      llm_detokenize = (\<lambda>tokens. Inr (map char_of tokens)),
      llm_call = (\<lambda>text. Inr example_response),
      sent = []\<rparr>"

definition example_agent :: "(string list list, unit, unit) agent" where
  "example_agent =
     \<lparr>schema_cache = example_schema,
      llm = example_llm,
      db_run = (\<lambda>sql. Inr ([[''3'']], [''COUNT(*)''])),
      describe = (\<lambda>rows cols. Inr (rows, cols, ())),
      processing_time_stats = (),
      QUERY_TIMEOUT = 30\<rparr>"

text \<open>The same agent while the model is not loaded and does not load in time.\<close>

definition loading_agent :: "(string list list, unit, unit) agent" where
  "loading_agent = example_agent\<lparr>llm := example_llm\<lparr>is_loaded := False\<rparr>\<rparr>"

text \<open>A question with a control character (a tab), which \<open>sanitize_input\<close> removes.\<close>

definition tabbed_question :: string where
  "tabbed_question = ''How many'' @ [CHR 0x09] @ ''orders''"

text \<open>A single statement whose string literal \<open>'a;b'\<close> holds a semicolon.\<close>

definition quoted_semicolon_query :: string where
  "quoted_semicolon_query =
     ''SELECT name FROM t WHERE note = '' @ [CHR 0x27] @ ''a;b'' @ [CHR 0x27]"

text \<open>A prompt of 15361 characters, one more than \<open>max_prompt_tokens\<close>.\<close>

definition long_prompt :: string where
  "long_prompt = replicate 15361 (CHR ''a'')"

section \<open>The wording of the specification\<close>

text \<open>
  Two notions in the words of the specification of the denylist, for comparison with
  \<open>validate_sql_injection\<close>: "strip a single trailing semicolon", and "a semicolon not at
  the very end" of a text.
\<close>

definition spec_strip_single_semicolon :: "string \<Rightarrow> string" where
  "spec_strip_single_semicolon s = (if s \<noteq> [] \<and> last s = CHR '';'' then butlast s else s)"

definition spec_semicolon_not_at_end :: "string \<Rightarrow> bool" where
  "spec_semicolon_not_at_end s = (CHR '';'' \<in> set (butlast s))"

section \<open>Character tables\<close>

text \<open>
  The values of the character functions on the printable ASCII characters, tab, line feed
  and carriage return, as rewrite rules: they let the simplifier evaluate the program on
  concrete texts without going through character codes.
\<close>

lemma lower_char_ascii:
  "lower_char (CHR 0x09) = CHR 0x09"
  "lower_char (CHR 0x0A) = CHR 0x0A"
  "lower_char (CHR 0x0D) = CHR 0x0D"
  "lower_char (CHR '' '') = CHR '' ''"
  "lower_char (CHR ''!'') = CHR ''!''"
  "lower_char (CHR 0x22) = CHR 0x22"
  "lower_char (CHR ''#'') = CHR ''#''"
  "lower_char (CHR ''$'') = CHR ''$''"
  "lower_char (CHR ''%'') = CHR ''%''"
  "lower_char (CHR ''&'') = CHR ''&''"
  "lower_char (CHR 0x27) = CHR 0x27"
  "lower_char (CHR ''('') = CHR ''(''"
  "lower_char (CHR '')'') = CHR '')''"
  "lower_char (CHR ''*'') = CHR ''*''"
  "lower_char (CHR ''+'') = CHR ''+''"
  "lower_char (CHR '','') = CHR '',''"
  "lower_char (CHR ''-'') = CHR ''-''"
  "lower_char (CHR ''.'') = CHR ''.''"
  "lower_char (CHR ''/'') = CHR ''/''"
  "lower_char (CHR ''0'') = CHR ''0''"
  "lower_char (CHR ''1'') = CHR ''1''"
  "lower_char (CHR ''2'') = CHR ''2''"
  "lower_char (CHR ''3'') = CHR ''3''"
  "lower_char (CHR ''4'') = CHR ''4''"
  "lower_char (CHR ''5'') = CHR ''5''"
  "lower_char (CHR ''6'') = CHR ''6''"
  "lower_char (CHR ''7'') = CHR ''7''"
  "lower_char (CHR ''8'') = CHR ''8''"
  "lower_char (CHR ''9'') = CHR ''9''"
  "lower_char (CHR '':'') = CHR '':''"
  "lower_char (CHR '';'') = CHR '';''"
  "lower_char (CHR ''<'') = CHR ''<''"
  "lower_char (CHR ''='') = CHR ''=''"
  "lower_char (CHR ''>'') = CHR ''>''"
  "lower_char (CHR ''?'') = CHR ''?''"
  "lower_char (CHR ''@'') = CHR ''@''"
  "lower_char (CHR ''A'') = CHR ''a''"
  "lower_char (CHR ''B'') = CHR ''b''"
  "lower_char (CHR ''C'') = CHR ''c''"
  "lower_char (CHR ''D'') = CHR ''d''"
  "lower_char (CHR ''E'') = CHR ''e''"
  "lower_char (CHR ''F'') = CHR ''f''"
  "lower_char (CHR ''G'') = CHR ''g''"
  "lower_char (CHR ''H'') = CHR ''h''"
  "lower_char (CHR ''I'') = CHR ''i''"
  "lower_char (CHR ''J'') = CHR ''j''"
  "lower_char (CHR ''K'') = CHR ''k''"
  "lower_char (CHR ''L'') = CHR ''l''"
  "lower_char (CHR ''M'') = CHR ''m''"
  "lower_char (CHR ''N'') = CHR ''n''"
  "lower_char (CHR ''O'') = CHR ''o''"
  "lower_char (CHR ''P'') = CHR ''p''"
  "lower_char (CHR ''Q'') = CHR ''q''"
  "lower_char (CHR ''R'') = CHR ''r''"
  "lower_char (CHR ''S'') = CHR ''s''"
  "lower_char (CHR ''T'') = CHR ''t''"
  "lower_char (CHR ''U'') = CHR ''u''"
  "lower_char (CHR ''V'') = CHR ''v''"
  "lower_char (CHR ''W'') = CHR ''w''"
  "lower_char (CHR ''X'') = CHR ''x''"
  "lower_char (CHR ''Y'') = CHR ''y''"
  "lower_char (CHR ''Z'') = CHR ''z''"
  "lower_char (CHR ''['') = CHR ''[''"
  "lower_char (CHR 0x5C) = CHR 0x5C"
  "lower_char (CHR '']'') = CHR '']''"
  "lower_char (CHR ''^'') = CHR ''^''"
  "lower_char (CHR ''_'') = CHR ''_''"
  "lower_char (CHR ''`'') = CHR ''`''"
  "lower_char (CHR ''a'') = CHR ''a''"
  "lower_char (CHR ''b'') = CHR ''b''"
  "lower_char (CHR ''c'') = CHR ''c''"
  "lower_char (CHR ''d'') = CHR ''d''"
  "lower_char (CHR ''e'') = CHR ''e''"
  "lower_char (CHR ''f'') = CHR ''f''"
  "lower_char (CHR ''g'') = CHR ''g''"
  "lower_char (CHR ''h'') = CHR ''h''"
  "lower_char (CHR ''i'') = CHR ''i''"
  "lower_char (CHR ''j'') = CHR ''j''"
  "lower_char (CHR ''k'') = CHR ''k''"
  "lower_char (CHR ''l'') = CHR ''l''"
  "lower_char (CHR ''m'') = CHR ''m''"
  "lower_char (CHR ''n'') = CHR ''n''"
  "lower_char (CHR ''o'') = CHR ''o''"
  "lower_char (CHR ''p'') = CHR ''p''"
  "lower_char (CHR ''q'') = CHR ''q''"
  "lower_char (CHR ''r'') = CHR ''r''"
  "lower_char (CHR ''s'') = CHR ''s''"
  "lower_char (CHR ''t'') = CHR ''t''"
  "lower_char (CHR ''u'') = CHR ''u''"
  "lower_char (CHR ''v'') = CHR ''v''"
  "lower_char (CHR ''w'') = CHR ''w''"
  "lower_char (CHR ''x'') = CHR ''x''"
  "lower_char (CHR ''y'') = CHR ''y''"
  "lower_char (CHR ''z'') = CHR ''z''"
  "lower_char (CHR ''{'') = CHR ''{''"
  "lower_char (CHR ''|'') = CHR ''|''"
  "lower_char (CHR ''}'') = CHR ''}''"
  "lower_char (CHR ''~'') = CHR ''~''"
  by (simp_all add: lower_char_def code_def char_of_def bit_Suc_0_iff)

lemma upper_char_ascii:
  "upper_char (CHR 0x09) = [CHR 0x09]"
  "upper_char (CHR 0x0A) = [CHR 0x0A]"
  "upper_char (CHR 0x0D) = [CHR 0x0D]"
  "upper_char (CHR '' '') = [CHR '' '']"
  "upper_char (CHR ''!'') = [CHR ''!'']"
  "upper_char (CHR 0x22) = [CHR 0x22]"
  "upper_char (CHR ''#'') = [CHR ''#'']"
  "upper_char (CHR ''$'') = [CHR ''$'']"
  "upper_char (CHR ''%'') = [CHR ''%'']"
  "upper_char (CHR ''&'') = [CHR ''&'']"
  "upper_char (CHR 0x27) = [CHR 0x27]"
  "upper_char (CHR ''('') = [CHR ''('']"
  "upper_char (CHR '')'') = [CHR '')'']"
  "upper_char (CHR ''*'') = [CHR ''*'']"
  "upper_char (CHR ''+'') = [CHR ''+'']"
  "upper_char (CHR '','') = [CHR '','']"
  "upper_char (CHR ''-'') = [CHR ''-'']"
  "upper_char (CHR ''.'') = [CHR ''.'']"
  "upper_char (CHR ''/'') = [CHR ''/'']"
  "upper_char (CHR ''0'') = [CHR ''0'']"
  "upper_char (CHR ''1'') = [CHR ''1'']"
  "upper_char (CHR ''2'') = [CHR ''2'']"
  "upper_char (CHR ''3'') = [CHR ''3'']"
  "upper_char (CHR ''4'') = [CHR ''4'']"
  "upper_char (CHR ''5'') = [CHR ''5'']"
  "upper_char (CHR ''6'') = [CHR ''6'']"
  "upper_char (CHR ''7'') = [CHR ''7'']"
  "upper_char (CHR ''8'') = [CHR ''8'']"
  "upper_char (CHR ''9'') = [CHR ''9'']"
  "upper_char (CHR '':'') = [CHR '':'']"
  "upper_char (CHR '';'') = [CHR '';'']"
  "upper_char (CHR ''<'') = [CHR ''<'']"
  "upper_char (CHR ''='') = [CHR ''='']"
  "upper_char (CHR ''>'') = [CHR ''>'']"
  "upper_char (CHR ''?'') = [CHR ''?'']"
  "upper_char (CHR ''@'') = [CHR ''@'']"
  "upper_char (CHR ''A'') = [CHR ''A'']"
  "upper_char (CHR ''B'') = [CHR ''B'']"
  "upper_char (CHR ''C'') = [CHR ''C'']"
  "upper_char (CHR ''D'') = [CHR ''D'']"
  "upper_char (CHR ''E'') = [CHR ''E'']"
  "upper_char (CHR ''F'') = [CHR ''F'']"
  "upper_char (CHR ''G'') = [CHR ''G'']"
  "upper_char (CHR ''H'') = [CHR ''H'']"
  "upper_char (CHR ''I'') = [CHR ''I'']"
  "upper_char (CHR ''J'') = [CHR ''J'']"
  "upper_char (CHR ''K'') = [CHR ''K'']"
  "upper_char (CHR ''L'') = [CHR ''L'']"
  "upper_char (CHR ''M'') = [CHR ''M'']"
  "upper_char (CHR ''N'') = [CHR ''N'']"
  "upper_char (CHR ''O'') = [CHR ''O'']"
  "upper_char (CHR ''P'') = [CHR ''P'']"
  "upper_char (CHR ''Q'') = [CHR ''Q'']"
  "upper_char (CHR ''R'') = [CHR ''R'']"
  "upper_char (CHR ''S'') = [CHR ''S'']"
  "upper_char (CHR ''T'') = [CHR ''T'']"
  "upper_char (CHR ''U'') = [CHR ''U'']"
  "upper_char (CHR ''V'') = [CHR ''V'']"
  "upper_char (CHR ''W'') = [CHR ''W'']"
  "upper_char (CHR ''X'') = [CHR ''X'']"
  "upper_char (CHR ''Y'') = [CHR ''Y'']"
  "upper_char (CHR ''Z'') = [CHR ''Z'']"
  "upper_char (CHR ''['') = [CHR ''['']"
  "upper_char (CHR 0x5C) = [CHR 0x5C]"
  "upper_char (CHR '']'') = [CHR '']'']"
  "upper_char (CHR ''^'') = [CHR ''^'']"
  "upper_char (CHR ''_'') = [CHR ''_'']"
  "upper_char (CHR ''`'') = [CHR ''`'']"
  "upper_char (CHR ''a'') = [CHR ''A'']"
  "upper_char (CHR ''b'') = [CHR ''B'']"
  "upper_char (CHR ''c'') = [CHR ''C'']"
  "upper_char (CHR ''d'') = [CHR ''D'']"
  "upper_char (CHR ''e'') = [CHR ''E'']"
  "upper_char (CHR ''f'') = [CHR ''F'']"
  "upper_char (CHR ''g'') = [CHR ''G'']"
  "upper_char (CHR ''h'') = [CHR ''H'']"
  "upper_char (CHR ''i'') = [CHR ''I'']"
  "upper_char (CHR ''j'') = [CHR ''J'']"
  "upper_char (CHR ''k'') = [CHR ''K'']"
  "upper_char (CHR ''l'') = [CHR ''L'']"
  "upper_char (CHR ''m'') = [CHR ''M'']"
  "upper_char (CHR ''n'') = [CHR ''N'']"
  "upper_char (CHR ''o'') = [CHR ''O'']"
  "upper_char (CHR ''p'') = [CHR ''P'']"
  "upper_char (CHR ''q'') = [CHR ''Q'']"
  "upper_char (CHR ''r'') = [CHR ''R'']"
  "upper_char (CHR ''s'') = [CHR ''S'']"
  "upper_char (CHR ''t'') = [CHR ''T'']"
  "upper_char (CHR ''u'') = [CHR ''U'']"
  "upper_char (CHR ''v'') = [CHR ''V'']"
  "upper_char (CHR ''w'') = [CHR ''W'']"
  "upper_char (CHR ''x'') = [CHR ''X'']"
  "upper_char (CHR ''y'') = [CHR ''Y'']"
  "upper_char (CHR ''z'') = [CHR ''Z'']"
  "upper_char (CHR ''{'') = [CHR ''{'']"
  "upper_char (CHR ''|'') = [CHR ''|'']"
  "upper_char (CHR ''}'') = [CHR ''}'']"
  "upper_char (CHR ''~'') = [CHR ''~'']"
  by (simp_all add: upper_char_def code_def char_of_def bit_Suc_0_iff)

lemma isspace_char_ascii:
  "isspace_char (CHR 0x09)"
  "isspace_char (CHR 0x0A)"
  "isspace_char (CHR 0x0D)"
  "isspace_char (CHR '' '')"
  "\<not> isspace_char (CHR ''!'')"
  "\<not> isspace_char (CHR 0x22)"
  "\<not> isspace_char (CHR ''#'')"
  "\<not> isspace_char (CHR ''$'')"
  "\<not> isspace_char (CHR ''%'')"
  "\<not> isspace_char (CHR ''&'')"
  "\<not> isspace_char (CHR 0x27)"
  "\<not> isspace_char (CHR ''('')"
  "\<not> isspace_char (CHR '')'')"
  "\<not> isspace_char (CHR ''*'')"
  "\<not> isspace_char (CHR ''+'')"
  "\<not> isspace_char (CHR '','')"
  "\<not> isspace_char (CHR ''-'')"
  "\<not> isspace_char (CHR ''.'')"
  "\<not> isspace_char (CHR ''/'')"
  "\<not> isspace_char (CHR ''0'')"
  "\<not> isspace_char (CHR ''1'')"
  "\<not> isspace_char (CHR ''2'')"
  "\<not> isspace_char (CHR ''3'')"
  "\<not> isspace_char (CHR ''4'')"
  "\<not> isspace_char (CHR ''5'')"
  "\<not> isspace_char (CHR ''6'')"
  "\<not> isspace_char (CHR ''7'')"
  "\<not> isspace_char (CHR ''8'')"
  "\<not> isspace_char (CHR ''9'')"
  "\<not> isspace_char (CHR '':'')"
  "\<not> isspace_char (CHR '';'')"
  "\<not> isspace_char (CHR ''<'')"
  "\<not> isspace_char (CHR ''='')"
  "\<not> isspace_char (CHR ''>'')"
  "\<not> isspace_char (CHR ''?'')"
  "\<not> isspace_char (CHR ''@'')"
  "\<not> isspace_char (CHR ''A'')"
  "\<not> isspace_char (CHR ''B'')"
  "\<not> isspace_char (CHR ''C'')"
  "\<not> isspace_char (CHR ''D'')"
  "\<not> isspace_char (CHR ''E'')"
  "\<not> isspace_char (CHR ''F'')"
  "\<not> isspace_char (CHR ''G'')"
  "\<not> isspace_char (CHR ''H'')"
  "\<not> isspace_char (CHR ''I'')"
  "\<not> isspace_char (CHR ''J'')"
  "\<not> isspace_char (CHR ''K'')"
  "\<not> isspace_char (CHR ''L'')"
  "\<not> isspace_char (CHR ''M'')"
  "\<not> isspace_char (CHR ''N'')"
  "\<not> isspace_char (CHR ''O'')"
  "\<not> isspace_char (CHR ''P'')"
  "\<not> isspace_char (CHR ''Q'')"
  "\<not> isspace_char (CHR ''R'')"
  "\<not> isspace_char (CHR ''S'')"
  "\<not> isspace_char (CHR ''T'')"
  "\<not> isspace_char (CHR ''U'')"
  "\<not> isspace_char (CHR ''V'')"
  "\<not> isspace_char (CHR ''W'')"
  "\<not> isspace_char (CHR ''X'')"
  "\<not> isspace_char (CHR ''Y'')"
  "\<not> isspace_char (CHR ''Z'')"
  "\<not> isspace_char (CHR ''['')"
  "\<not> isspace_char (CHR 0x5C)"
  "\<not> isspace_char (CHR '']'')"
  "\<not> isspace_char (CHR ''^'')"
  "\<not> isspace_char (CHR ''_'')"
  "\<not> isspace_char (CHR ''`'')"
  "\<not> isspace_char (CHR ''a'')"
  "\<not> isspace_char (CHR ''b'')"
  "\<not> isspace_char (CHR ''c'')"
  "\<not> isspace_char (CHR ''d'')"
  "\<not> isspace_char (CHR ''e'')"
  "\<not> isspace_char (CHR ''f'')"
  "\<not> isspace_char (CHR ''g'')"
  "\<not> isspace_char (CHR ''h'')"
  "\<not> isspace_char (CHR ''i'')"
  "\<not> isspace_char (CHR ''j'')"
  "\<not> isspace_char (CHR ''k'')"
  "\<not> isspace_char (CHR ''l'')"
  "\<not> isspace_char (CHR ''m'')"
  "\<not> isspace_char (CHR ''n'')"
  "\<not> isspace_char (CHR ''o'')"
  "\<not> isspace_char (CHR ''p'')"
  "\<not> isspace_char (CHR ''q'')"
  "\<not> isspace_char (CHR ''r'')"
  "\<not> isspace_char (CHR ''s'')"
  "\<not> isspace_char (CHR ''t'')"
  "\<not> isspace_char (CHR ''u'')"
  "\<not> isspace_char (CHR ''v'')"
  "\<not> isspace_char (CHR ''w'')"
  "\<not> isspace_char (CHR ''x'')"
  "\<not> isspace_char (CHR ''y'')"
  "\<not> isspace_char (CHR ''z'')"
  "\<not> isspace_char (CHR ''{'')"
  "\<not> isspace_char (CHR ''|'')"
  "\<not> isspace_char (CHR ''}'')"
  "\<not> isspace_char (CHR ''~'')"
  by (simp_all add: isspace_char_def code_def)

lemma isalnum_char_ascii:
  "\<not> isalnum_char (CHR 0x09)"
  "\<not> isalnum_char (CHR 0x0A)"
  "\<not> isalnum_char (CHR 0x0D)"
  "\<not> isalnum_char (CHR '' '')"
  "\<not> isalnum_char (CHR ''!'')"
  "\<not> isalnum_char (CHR 0x22)"
  "\<not> isalnum_char (CHR ''#'')"
  "\<not> isalnum_char (CHR ''$'')"
  "\<not> isalnum_char (CHR ''%'')"
  "\<not> isalnum_char (CHR ''&'')"
  "\<not> isalnum_char (CHR 0x27)"
  "\<not> isalnum_char (CHR ''('')"
  "\<not> isalnum_char (CHR '')'')"
  "\<not> isalnum_char (CHR ''*'')"
  "\<not> isalnum_char (CHR ''+'')"
  "\<not> isalnum_char (CHR '','')"
  "\<not> isalnum_char (CHR ''-'')"
  "\<not> isalnum_char (CHR ''.'')"
  "\<not> isalnum_char (CHR ''/'')"
  "isalnum_char (CHR ''0'')"
  "isalnum_char (CHR ''1'')"
  "isalnum_char (CHR ''2'')"
  "isalnum_char (CHR ''3'')"
  "isalnum_char (CHR ''4'')"
  "isalnum_char (CHR ''5'')"
  "isalnum_char (CHR ''6'')"
  "isalnum_char (CHR ''7'')"
  "isalnum_char (CHR ''8'')"
  "isalnum_char (CHR ''9'')"
  "\<not> isalnum_char (CHR '':'')"
  "\<not> isalnum_char (CHR '';'')"
  "\<not> isalnum_char (CHR ''<'')"
  "\<not> isalnum_char (CHR ''='')"
  "\<not> isalnum_char (CHR ''>'')"
  "\<not> isalnum_char (CHR ''?'')"
  "\<not> isalnum_char (CHR ''@'')"
  "isalnum_char (CHR ''A'')"
  "isalnum_char (CHR ''B'')"
  "isalnum_char (CHR ''C'')"
  "isalnum_char (CHR ''D'')"
  "isalnum_char (CHR ''E'')"
  "isalnum_char (CHR ''F'')"
  "isalnum_char (CHR ''G'')"
  "isalnum_char (CHR ''H'')"
  "isalnum_char (CHR ''I'')"
  "isalnum_char (CHR ''J'')"
  "isalnum_char (CHR ''K'')"
  "isalnum_char (CHR ''L'')"
  "isalnum_char (CHR ''M'')"
  "isalnum_char (CHR ''N'')"
  "isalnum_char (CHR ''O'')"
  "isalnum_char (CHR ''P'')"
  "isalnum_char (CHR ''Q'')"
  "isalnum_char (CHR ''R'')"
  "isalnum_char (CHR ''S'')"
  "isalnum_char (CHR ''T'')"
  "isalnum_char (CHR ''U'')"
  "isalnum_char (CHR ''V'')"
  "isalnum_char (CHR ''W'')"
  "isalnum_char (CHR ''X'')"
  "isalnum_char (CHR ''Y'')"
  "isalnum_char (CHR ''Z'')"
  "\<not> isalnum_char (CHR ''['')"
  "\<not> isalnum_char (CHR 0x5C)"
  "\<not> isalnum_char (CHR '']'')"
  "\<not> isalnum_char (CHR ''^'')"
  "\<not> isalnum_char (CHR ''_'')"
  "\<not> isalnum_char (CHR ''`'')"
  "isalnum_char (CHR ''a'')"
  "isalnum_char (CHR ''b'')"
  "isalnum_char (CHR ''c'')"
  "isalnum_char (CHR ''d'')"
  "isalnum_char (CHR ''e'')"
  "isalnum_char (CHR ''f'')"
  "isalnum_char (CHR ''g'')"
  "isalnum_char (CHR ''h'')"
  "isalnum_char (CHR ''i'')"
  "isalnum_char (CHR ''j'')"
  "isalnum_char (CHR ''k'')"
  "isalnum_char (CHR ''l'')"
  "isalnum_char (CHR ''m'')"
  "isalnum_char (CHR ''n'')"
  "isalnum_char (CHR ''o'')"
  "isalnum_char (CHR ''p'')"
  "isalnum_char (CHR ''q'')"
  "isalnum_char (CHR ''r'')"
  "isalnum_char (CHR ''s'')"
  "isalnum_char (CHR ''t'')"
  "isalnum_char (CHR ''u'')"
  "isalnum_char (CHR ''v'')"
  "isalnum_char (CHR ''w'')"
  "isalnum_char (CHR ''x'')"
  "isalnum_char (CHR ''y'')"
  "isalnum_char (CHR ''z'')"
  "\<not> isalnum_char (CHR ''{'')"
  "\<not> isalnum_char (CHR ''|'')"
  "\<not> isalnum_char (CHR ''}'')"
  "\<not> isalnum_char (CHR ''~'')"
  by (simp_all add: isalnum_char_def code_def)

lemma isdigit_char_ascii:
  "\<not> isdigit_char (CHR 0x09)"
  "\<not> isdigit_char (CHR 0x0A)"
  "\<not> isdigit_char (CHR 0x0D)"
  "\<not> isdigit_char (CHR '' '')"
  "\<not> isdigit_char (CHR ''!'')"
  "\<not> isdigit_char (CHR 0x22)"
  "\<not> isdigit_char (CHR ''#'')"
  "\<not> isdigit_char (CHR ''$'')"
  "\<not> isdigit_char (CHR ''%'')"
  "\<not> isdigit_char (CHR ''&'')"
  "\<not> isdigit_char (CHR 0x27)"
  "\<not> isdigit_char (CHR ''('')"
  "\<not> isdigit_char (CHR '')'')"
  "\<not> isdigit_char (CHR ''*'')"
  "\<not> isdigit_char (CHR ''+'')"
  "\<not> isdigit_char (CHR '','')"
  "\<not> isdigit_char (CHR ''-'')"
  "\<not> isdigit_char (CHR ''.'')"
  "\<not> isdigit_char (CHR ''/'')"
  "isdigit_char (CHR ''0'')"
  "isdigit_char (CHR ''1'')"
  "isdigit_char (CHR ''2'')"
  "isdigit_char (CHR ''3'')"
  "isdigit_char (CHR ''4'')"
  "isdigit_char (CHR ''5'')"
  "isdigit_char (CHR ''6'')"
  "isdigit_char (CHR ''7'')"
  "isdigit_char (CHR ''8'')"
  "isdigit_char (CHR ''9'')"
  "\<not> isdigit_char (CHR '':'')"
  "\<not> isdigit_char (CHR '';'')"
  "\<not> isdigit_char (CHR ''<'')"
  "\<not> isdigit_char (CHR ''='')"
  "\<not> isdigit_char (CHR ''>'')"
  "\<not> isdigit_char (CHR ''?'')"
  "\<not> isdigit_char (CHR ''@'')"
  "\<not> isdigit_char (CHR ''A'')"
  "\<not> isdigit_char (CHR ''B'')"
  "\<not> isdigit_char (CHR ''C'')"
  "\<not> isdigit_char (CHR ''D'')"
  "\<not> isdigit_char (CHR ''E'')"
  "\<not> isdigit_char (CHR ''F'')"
  "\<not> isdigit_char (CHR ''G'')"
  "\<not> isdigit_char (CHR ''H'')"
  "\<not> isdigit_char (CHR ''I'')"
  "\<not> isdigit_char (CHR ''J'')"
  "\<not> isdigit_char (CHR ''K'')"
  "\<not> isdigit_char (CHR ''L'')"
  "\<not> isdigit_char (CHR ''M'')"
  "\<not> isdigit_char (CHR ''N'')"
  "\<not> isdigit_char (CHR ''O'')"
  "\<not> isdigit_char (CHR ''P'')"
  "\<not> isdigit_char (CHR ''Q'')"
  "\<not> isdigit_char (CHR ''R'')"
  "\<not> isdigit_char (CHR ''S'')"
  "\<not> isdigit_char (CHR ''T'')"
  "\<not> isdigit_char (CHR ''U'')"
  "\<not> isdigit_char (CHR ''V'')"
  "\<not> isdigit_char (CHR ''W'')"
  "\<not> isdigit_char (CHR ''X'')"
  "\<not> isdigit_char (CHR ''Y'')"
  "\<not> isdigit_char (CHR ''Z'')"
  "\<not> isdigit_char (CHR ''['')"
  "\<not> isdigit_char (CHR 0x5C)"
  "\<not> isdigit_char (CHR '']'')"
  "\<not> isdigit_char (CHR ''^'')"
  "\<not> isdigit_char (CHR ''_'')"
  "\<not> isdigit_char (CHR ''`'')"
  "\<not> isdigit_char (CHR ''a'')"
  "\<not> isdigit_char (CHR ''b'')"
  "\<not> isdigit_char (CHR ''c'')"
  "\<not> isdigit_char (CHR ''d'')"
  "\<not> isdigit_char (CHR ''e'')"
  "\<not> isdigit_char (CHR ''f'')"
  "\<not> isdigit_char (CHR ''g'')"
  "\<not> isdigit_char (CHR ''h'')"
  "\<not> isdigit_char (CHR ''i'')"
  "\<not> isdigit_char (CHR ''j'')"
  "\<not> isdigit_char (CHR ''k'')"
  "\<not> isdigit_char (CHR ''l'')"
  "\<not> isdigit_char (CHR ''m'')"
  "\<not> isdigit_char (CHR ''n'')"
  "\<not> isdigit_char (CHR ''o'')"
  "\<not> isdigit_char (CHR ''p'')"
  "\<not> isdigit_char (CHR ''q'')"
  "\<not> isdigit_char (CHR ''r'')"
  "\<not> isdigit_char (CHR ''s'')"
  "\<not> isdigit_char (CHR ''t'')"
  "\<not> isdigit_char (CHR ''u'')"
  "\<not> isdigit_char (CHR ''v'')"
  "\<not> isdigit_char (CHR ''w'')"
  "\<not> isdigit_char (CHR ''x'')"
  "\<not> isdigit_char (CHR ''y'')"
  "\<not> isdigit_char (CHR ''z'')"
  "\<not> isdigit_char (CHR ''{'')"
  "\<not> isdigit_char (CHR ''|'')"
  "\<not> isdigit_char (CHR ''}'')"
  "\<not> isdigit_char (CHR ''~'')"
  by (simp_all add: isdigit_char_def code_def)

lemmas char_tabs =
  lower_char_ascii upper_char_ascii isspace_char_ascii isalnum_char_ascii isdigit_char_ascii

lemmas rx_defs = seqs_def lit_def liti_def one_or_more_def re_search_def is_word_def next_char_def

lemmas gate_a_defs =
  validate_sql_injection_def query_to_check_def rstrip_chars_def aggregate_star_def
  dangerous_patterns_def rx_defs char_tabs

section \<open>The validator's interface\<close>

lemma validate_sql_accepts_reason:
  assumes "validate_sql sql = (True, reason)"
  shows "reason = []"
  using assms
  by (auto simp: validate_sql_def validate_sql_body_def
      split: sum.splits exn.splits if_splits option.splits)

lemma gate_a_drop_table:
  "validate_sql_injection ''DROP TABLE t'' =
     Inl (SecurityError (''Potential SQL injection detected: DROP'' @ bs @ ''s+TABLE''))"
  by (simp add: gate_a_defs)

text \<open>
  C9. \<open>validate_sql\<close> returns a verdict for every text: an exception that leaves its
  body never leaves the function. A \<open>SecurityError\<close> of the denylist becomes the verdict
  \<open>(False, message)\<close>, and any exception of the body becomes a rejecting verdict.
\<close>

theorem validate_sql_never_raises:
  "(\<exists>b reason. validate_sql sql = (b, reason)) \<and>
   (\<forall>m. validate_sql_injection sql = Inl (SecurityError m) \<longrightarrow> validate_sql sql = (False, m)) \<and>
   (\<forall>e. validate_sql_body sql = Inl e \<longrightarrow> (\<exists>reason. validate_sql sql = (False, reason)))"
proof (intro conjI allI impI)
  show "\<exists>b reason. validate_sql sql = (b, reason)"
    by (cases "validate_sql sql") blast
next
  fix m assume "validate_sql_injection sql = Inl (SecurityError m)"
  then show "validate_sql sql = (False, m)"
    by (simp add: validate_sql_def validate_sql_body_def)
next
  fix e assume "validate_sql_body sql = Inl e"
  then show "\<exists>reason. validate_sql sql = (False, reason)"
    by (cases e) (auto simp: validate_sql_def)
qed

theorem validate_sql_never_raises_witness:
  "validate_sql_injection ''DROP TABLE t'' =
     Inl (SecurityError (''Potential SQL injection detected: DROP'' @ bs @ ''s+TABLE'')) \<and>
   validate_sql ''DROP TABLE t'' =
     (False, ''Potential SQL injection detected: DROP'' @ bs @ ''s+TABLE'')"
  using validate_sql_never_raises [of "''DROP TABLE t''"] gate_a_drop_table
  by simp

section \<open>Evaluating the example\<close>

lemmas str_defs = strip_def lstrip_def rstrip_def replace_def split_def upper_def lower_def nl_def

lemma validate_query_example: "validate_query ''How many orders'' = Inr True"
  by (simp add: validate_query_def sanitize_input_def validate_query_length_def code_def
      replace_def gate_a_defs)

lemma parse_sql_example:
  "parse_sql example_response =
     ''SELECT COUNT(*) FROM orders''"
  by (simp add: example_response_def parse_sql_def findall_first_def code_block_def rx_defs
      str_defs char_tabs)

lemma strip_example:
  "strip example_response =
     example_response"
  by (simp add: example_response_def str_defs char_tabs)

lemma gate_a_count_orders: "validate_sql_injection ''SELECT COUNT(*) FROM orders'' = Inr True"
  by (simp add: gate_a_defs)

lemma select_part_count_orders: "select_part ''SELECT COUNT(*) FROM orders'' = ''SELECT COUNT(*)''"
  by (simp add: select_part_def str_defs char_tabs)

lemma split_words_count_orders:
  "split_words ''SELECT COUNT(*)'' [] [] False = [''SELECT'', ''COUNT'', ''('', ''*'', '')'']"
  by (simp add: flush_def char_tabs)

lemma check_words_count_orders:
  "check_words [''SELECT'', ''COUNT'', ''('', ''*'', '')''] = None"
  by (simp add: is_identifier_def isalnum_def str_defs char_tabs)

lemma validate_sql_count_orders: "validate_sql ''SELECT COUNT(*) FROM orders'' = (True, [])"
  by (simp add: validate_sql_def validate_sql_body_def gate_a_count_orders
      select_part_count_orders split_words_count_orders check_words_count_orders
      str_defs char_tabs del: split_words.simps check_words.simps)

lemma filter_example:
  "filter_relevant_tables example_schema ''How many orders'' =
     ''### DATABASE SCHEMA'' @ nl @ nl @ ''orders(id INTEGER PK NN, total REAL);'' @ nl"
  by (simp add: filter_relevant_tables_def relevant_tables_def matching_tables_def
      example_schema_def format_table_def column_def_def str_defs char_tabs)

section \<open>The orchestrator's responses\<close>

lemma format_results_status:
  "fr_message (format_results a er) = Some m \<Longrightarrow>
   fr_status (format_results a er) = ''success'' \<or> fr_status (format_results a er) = ''error''"
  by (auto simp: format_results_def split: if_splits sum.splits)

lemma body_response:
  assumes "process_query_body a q = (Inr r, a')"
  shows "r_user_query r = q \<and>
         (r_status r = ''pending'' \<or> r_status r = ''error'' \<or>
          (r_status r = ''success'' \<and> (\<exists>sql. r_sql r = Some sql \<and> validate_sql sql = (True, []))))"
  using assms
  apply (simp add: process_query_body_def message_response_def Let_def
      split: sum.splits prod.splits if_splits option.splits)
  apply (auto dest: format_results_status validate_sql_accepts_reason)
  done

lemma raised_response:
  assumes "process_query_body a q = (Inl e, a')"
  shows "r_status (fst (process_query a q)) = ''error'' \<and>
         r_message (fst (process_query a q)) \<noteq> [] \<and>
         r_user_query (fst (process_query a q)) = q \<and>
         r_sql (fst (process_query a q)) = None"
  using assms by (cases e) (simp_all add: process_query_def message_response_def)

lemma returned_response:
  assumes "process_query_body a q = (Inr r, a')"
  shows "fst (process_query a q) = r"
  using assms by (simp add: process_query_def)

lemma length_strip_le: "length (strip s) \<le> length s"
proof -
  have "length (rstrip (lstrip s)) \<le> length (lstrip s)"
    unfolding rstrip_def using length_dropWhile_le [of isspace_char "rev (lstrip s)"] by simp
  also have "\<dots> \<le> length s"
    unfolding lstrip_def by (rule length_dropWhile_le)
  finally show ?thesis by (simp add: strip_def)
qed

lemma prompt_length:
  "length (create_sql_generation_prompt q s) \<le> length q + length s + 600"
proof -
  have "length (create_sql_generation_prompt q s) \<le> length q + length s + 502"
    unfolding create_sql_generation_prompt_def
    by (rule order_trans [OF length_strip_le]) (simp add: nl_def)
  then show ?thesis by simp
qed

lemma generate_sql_example:
  assumes "length p \<le> 15360"
  shows "generate_sql example_llm p =
           (Inr example_response,
            example_llm\<lparr>sent := [wrap_prompt p]\<rparr>)"
  using assms strip_example
  by (simp add: generate_sql_def example_llm_def max_prompt_tokens_def
      max_context_tokens_def max_response_tokens_def)

lemma qp_example:
  "qp_process_query example_schema example_llm ''How many orders'' =
     (Inr ''SELECT COUNT(*) FROM orders'',
      example_llm\<lparr>sent := [wrap_prompt (create_sql_generation_prompt ''How many orders''
         (filter_relevant_tables example_schema ''How many orders''))]\<rparr>)"
proof -
  let ?p = "create_sql_generation_prompt ''How many orders''
              (filter_relevant_tables example_schema ''How many orders'')"
  have "length ?p \<le> 15360"
    using prompt_length [of "''How many orders''" "filter_relevant_tables example_schema ''How many orders''"]
    by (simp add: filter_example nl_def)
  then have "generate_sql example_llm ?p =
           (Inr example_response,
            example_llm\<lparr>sent := [wrap_prompt ?p]\<rparr>)"
    by (rule generate_sql_example)
  then show ?thesis
    by (simp add: qp_process_query_def generate_and_validate_def parse_sql_example
        validate_sql_count_orders)
qed

lemma example_llm_loaded: "is_loaded example_llm"
  by (simp add: example_llm_def)

lemma process_query_example:
  "fst (process_query example_agent ''How many orders'') =
     \<lparr>r_status = ''success'', r_message = ''Query executed successfully'',
      r_user_query = ''How many orders'', r_sql = Some ''SELECT COUNT(*) FROM orders'',
      r_results = Some [[''3'']], r_columns = Some [''COUNT(*)''], r_summary = Some (),
      r_metrics = Some ()\<rparr>"
  by (simp add: process_query_def process_query_body_def validate_query_example
      example_agent_def qp_example validate_sql_count_orders execute_query_def
      format_results_def example_llm_loaded)

text \<open>
  C1. Whenever \<open>process_query\<close> answers with status \<open>success\<close>, the response carries
  an SQL text, and \<open>validate_sql\<close> accepts that text with the verdict \<open>(True, "")\<close>.
\<close>

theorem success_carries_validated_sql:
  assumes "r_status (fst (process_query a q)) = ''success''"
  shows "\<exists>sql. r_sql (fst (process_query a q)) = Some sql \<and> validate_sql sql = (True, [])"
proof (cases "process_query_body a q")
  case (Pair res a')
  show ?thesis
  proof (cases res)
    case (Inl e)
    with Pair assms raised_response [of a q e a'] show ?thesis by simp
  next
    case (Inr r)
    with Pair have "fst (process_query a q) = r" by (simp add: returned_response)
    with Pair Inr assms body_response [of a q r a'] show ?thesis by auto
  qed
qed

theorem success_carries_validated_sql_witness:
  "r_status (fst (process_query example_agent ''How many orders'')) = ''success'' \<and>
   (\<exists>sql. r_sql (fst (process_query example_agent ''How many orders'')) = Some sql \<and>
          validate_sql sql = (True, []))"
  using success_carries_validated_sql [of example_agent "''How many orders''"]
  by (simp add: process_query_example)

text \<open>
  C3. For every question \<open>process_query\<close> returns a response, and its status is one of
  \<open>success\<close>, \<open>pending\<close> and \<open>error\<close>. Whenever an exception leaves the body of the
  \<open>try\<close>, whatever its class, the response has status \<open>error\<close> and a message.
\<close>
theorem process_query_status:
  "r_status (fst (process_query a q)) \<in> {''success'', ''pending'', ''error''} \<and>
   (\<forall>e a'. process_query_body a q = (Inl e, a') \<longrightarrow>
      r_status (fst (process_query a q)) = ''error'' \<and>
      r_message (fst (process_query a q)) \<noteq> [])"
proof (cases "process_query_body a q")
  case (Pair res a')
  show ?thesis
  proof (cases res)
    case (Inl e)
    with Pair raised_response [of a q e a'] show ?thesis by simp
  next
    case (Inr r)
    with Pair have "fst (process_query a q) = r" by (simp add: returned_response)
    with Pair Inr body_response [of a q r a'] show ?thesis by auto
  qed
qed

lemma validate_query_drop_table:
  "validate_query ''DROP TABLE t'' =
     Inl (SecurityError (''Potential SQL injection detected: DROP'' @ bs @ ''s+TABLE''))"
  by (simp add: validate_query_def sanitize_input_def validate_query_length_def code_def
      replace_def gate_a_drop_table)

theorem process_query_status_witness:
  "process_query_body example_agent ''DROP TABLE t'' =
     (Inl (SecurityError (''Potential SQL injection detected: DROP'' @ bs @ ''s+TABLE'')),
      example_agent) \<and>
   r_status (fst (process_query example_agent ''DROP TABLE t'')) = ''error'' \<and>
   r_message (fst (process_query example_agent ''DROP TABLE t'')) \<noteq> []"
proof -
  have body: "process_query_body example_agent ''DROP TABLE t'' =
     (Inl (SecurityError (''Potential SQL injection detected: DROP'' @ bs @ ''s+TABLE'')),
      example_agent)"
    by (simp add: process_query_body_def validate_query_drop_table)
  with process_query_status [of example_agent "''DROP TABLE t''"] show ?thesis
    by blast
qed

text \<open>
  C4. When the question passes \<open>validate_query\<close>, the model is not loaded and the wait of
  \<open>QUERY_TIMEOUT\<close> seconds ends without it, the response is \<open>pending\<close>, with a message and
  the question as given, and nothing else.
\<close>
theorem model_not_ready_is_pending:
  assumes "validate_query q = Inr True"
    and "\<not> is_loaded (llm a)"
    and "\<not> load_joins (llm a) (QUERY_TIMEOUT a)"
  shows "fst (process_query a q) =
           \<lparr>r_status = ''pending'', r_message = ''Model loading timeout. Please try again.'',
            r_user_query = q, r_sql = None, r_results = None, r_columns = None,
            r_summary = None, r_metrics = None\<rparr>"
  using assms
  by (simp add: process_query_def process_query_body_def wait_for_model_def
      message_response_def)

theorem model_not_ready_is_pending_witness:
  "validate_query ''How many orders'' = Inr True \<and>
   \<not> is_loaded (llm loading_agent) \<and>
   \<not> load_joins (llm loading_agent) (QUERY_TIMEOUT loading_agent) \<and>
   fst (process_query loading_agent ''How many orders'') =
     \<lparr>r_status = ''pending'', r_message = ''Model loading timeout. Please try again.'',
      r_user_query = ''How many orders'', r_sql = None, r_results = None, r_columns = None,
      r_summary = None, r_metrics = None\<rparr>"
proof -
  have 1: "\<not> is_loaded (llm loading_agent)"
    by (simp add: loading_agent_def)
  have 2: "\<not> load_joins (llm loading_agent) (QUERY_TIMEOUT loading_agent)"
    by (simp add: loading_agent_def example_llm_def)
  from model_not_ready_is_pending [OF validate_query_example 1 2] validate_query_example 1 2
  show ?thesis by simp
qed

section \<open>What the backend receives\<close>

lemma generate_sql_sent:
  "sent (snd (generate_sql c p)) = sent c \<or>
   sent (snd (generate_sql c p)) = sent c @ [wrap_prompt p]"
  by (simp add: generate_sql_def wait_for_model_def Let_def split: sum.splits)

lemma generate_sql_sent_loaded:
  assumes "is_loaded c" and "llm_tokenize c p = Inr enc" and "length enc \<le> max_prompt_tokens"
  shows "sent (snd (generate_sql c p)) = sent c @ [wrap_prompt p]"
  using assms by (simp add: generate_sql_def Let_def split: sum.splits)

lemma qp_sent:
  "sent (snd (qp_process_query sch c q)) = sent c \<or>
   sent (snd (qp_process_query sch c q)) =
     sent c @ [wrap_prompt (create_sql_generation_prompt q (filter_relevant_tables sch q))]"
  using generate_sql_sent [of c "create_sql_generation_prompt q (filter_relevant_tables sch q)"]
  by (auto simp: qp_process_query_def generate_and_validate_def Let_def
      split: prod.splits sum.splits)

lemma qp_sent_loaded:
  assumes "q \<noteq> []" and "is_loaded c"
    and "llm_tokenize c (create_sql_generation_prompt q (filter_relevant_tables sch q)) = Inr enc"
    and "length enc \<le> max_prompt_tokens"
  shows "sent (snd (qp_process_query sch c q)) =
     sent c @ [wrap_prompt (create_sql_generation_prompt q (filter_relevant_tables sch q))]"
  using generate_sql_sent_loaded [OF assms(2-4)] assms(1)
  by (auto simp: qp_process_query_def generate_and_validate_def Let_def
      split: prod.splits sum.splits)

lemma snd_process_query: "snd (process_query a q) = snd (process_query_body a q)"
proof (cases "process_query_body a q")
  case (Pair res a')
  then show ?thesis
  proof (cases res)
    case (Inl e)
    with Pair show ?thesis by (cases e) (simp_all add: process_query_def)
  next
    case (Inr r)
    with Pair show ?thesis by (simp add: process_query_def)
  qed
qed

lemma body_after_qp:
  "snd (case qp_process_query sch c q of
          (Inl e, c2) \<Rightarrow> (Inl e, a\<lparr>llm := c2\<rparr>)
        | (Inr sql, c2) \<Rightarrow>
            (let a2 = a\<lparr>llm := c2\<rparr>; (is_valid, error) = validate_sql sql
             in if \<not> is_valid then (Inr (f sql error), a2)
                else (case execute_query a2 sql of
                        Inl e \<Rightarrow> (Inl e, a2)
                      | Inr execution_result \<Rightarrow>
                          (let formatted = format_results a2 execution_result in
                           case fr_message formatted of
                             None \<Rightarrow> (Inl (g a2), a2)
                           | Some msg \<Rightarrow> (Inr (h a2 formatted msg sql), a2))))) =
   a\<lparr>llm := snd (qp_process_query sch c q)\<rparr>"
  by (simp add: Let_def split: prod.splits sum.splits option.splits)

lemma process_query_llm:
  "llm (snd (process_query a q)) = llm a \<or>
   (\<not> is_loaded (llm a) \<and>
    llm (snd (process_query a q)) = snd (wait_for_model (llm a) (QUERY_TIMEOUT a))) \<or>
   llm (snd (process_query a q)) =
     snd (qp_process_query (schema_cache a)
            (if is_loaded (llm a) then llm a
             else snd (wait_for_model (llm a) (QUERY_TIMEOUT a))) q)"
proof (cases "validate_query q")
  case (Inl e)
  then show ?thesis by (simp add: snd_process_query process_query_body_def)
next
  case (Inr b)
  show ?thesis
  proof (cases "is_loaded (llm a)")
    case True
    with Inr show ?thesis
      by (simp add: snd_process_query process_query_body_def body_after_qp)
  next
    case False
    with Inr show ?thesis
      by (cases "wait_for_model (llm a) (QUERY_TIMEOUT a)")
        (simp add: snd_process_query process_query_body_def body_after_qp)
  qed
qed

lemma wait_sent: "sent (snd (wait_for_model c t)) = sent c"
  by (simp add: wait_for_model_def Let_def)

lemma user_query_echo: "r_user_query (fst (process_query a q)) = q"
proof (cases "process_query_body a q")
  case (Pair res a')
  show ?thesis
  proof (cases res)
    case (Inl e)
    with Pair raised_response [of a q e a'] show ?thesis by simp
  next
    case (Inr r)
    with Pair body_response [of a q r a'] returned_response [of a q r a'] show ?thesis by simp
  qed
qed

text \<open>
  C10. The sanitized text stays inside \<open>validate_query\<close>. The response echoes the question
  as given. During \<open>process_query\<close> the backend receives nothing, or exactly one text: the
  wrapped prompt built from the question as given and from the schema filtered by the
  question as given; and it does receive that text when the question is not empty and
  passes validation, the model is loaded and the prompt tokenizes within the budget.
\<close>
theorem sanitization_is_local:
  "r_user_query (fst (process_query a q)) = q \<and>
   (sent (llm (snd (process_query a q))) = sent (llm a) \<or>
    sent (llm (snd (process_query a q))) =
      sent (llm a) @
      [wrap_prompt (create_sql_generation_prompt q (filter_relevant_tables (schema_cache a) q))]) \<and>
   (validate_query q = Inr True \<and> q \<noteq> [] \<and> is_loaded (llm a) \<and>
    (\<exists>enc. llm_tokenize (llm a)
             (create_sql_generation_prompt q (filter_relevant_tables (schema_cache a) q)) = Inr enc \<and>
           length enc \<le> max_prompt_tokens) \<longrightarrow>
    sent (llm (snd (process_query a q))) =
      sent (llm a) @
      [wrap_prompt (create_sql_generation_prompt q (filter_relevant_tables (schema_cache a) q))])"
proof (intro conjI impI)
  show "r_user_query (fst (process_query a q)) = q"
    by (rule user_query_echo)
next
  let ?c = "if is_loaded (llm a) then llm a
            else snd (wait_for_model (llm a) (QUERY_TIMEOUT a))"
  have c: "sent ?c = sent (llm a)"
    by (simp add: wait_sent)
  from process_query_llm [of a q] qp_sent [of "schema_cache a" ?c q] c wait_sent
  show "sent (llm (snd (process_query a q))) = sent (llm a) \<or>
    sent (llm (snd (process_query a q))) =
      sent (llm a) @
      [wrap_prompt (create_sql_generation_prompt q (filter_relevant_tables (schema_cache a) q))]"
    by (elim disjE conjE) simp_all
next
  assume h: "validate_query q = Inr True \<and> q \<noteq> [] \<and> is_loaded (llm a) \<and>
    (\<exists>enc. llm_tokenize (llm a)
             (create_sql_generation_prompt q (filter_relevant_tables (schema_cache a) q)) = Inr enc \<and>
           length enc \<le> max_prompt_tokens)"
  then obtain enc where enc: "llm_tokenize (llm a)
             (create_sql_generation_prompt q (filter_relevant_tables (schema_cache a) q)) = Inr enc"
      "length enc \<le> max_prompt_tokens"
    by blast
  from h have "snd (process_query a q) = a\<lparr>llm := snd (qp_process_query (schema_cache a) (llm a) q)\<rparr>"
    by (simp add: snd_process_query process_query_body_def body_after_qp)
  with qp_sent_loaded [of q "llm a" "schema_cache a" enc] h enc
  show "sent (llm (snd (process_query a q))) =
      sent (llm a) @
      [wrap_prompt (create_sql_generation_prompt q (filter_relevant_tables (schema_cache a) q))]"
    by simp
qed

lemma sanitize_tabbed: "sanitize_input tabbed_question = ''How manyorders''"
  by (simp add: tabbed_question_def sanitize_input_def replace_def code_def)

lemma validate_query_tabbed: "validate_query tabbed_question = Inr True"
  by (simp add: validate_query_def sanitize_tabbed validate_query_length_def gate_a_defs)

lemma filter_tabbed:
  "filter_relevant_tables example_schema tabbed_question =
     ''### DATABASE SCHEMA'' @ nl @ nl @ ''orders(id INTEGER PK NN, total REAL);'' @ nl"
  by (simp add: tabbed_question_def filter_relevant_tables_def relevant_tables_def
      matching_tables_def example_schema_def format_table_def column_def_def str_defs char_tabs)

theorem sanitization_is_local_witness:
  "sanitize_input tabbed_question \<noteq> tabbed_question \<and>
   validate_query tabbed_question = Inr True \<and>
   r_user_query (fst (process_query example_agent tabbed_question)) = tabbed_question \<and>
   sent (llm (snd (process_query example_agent tabbed_question))) =
     [wrap_prompt (create_sql_generation_prompt tabbed_question
        (filter_relevant_tables example_schema tabbed_question))]"
proof -
  let ?p = "create_sql_generation_prompt tabbed_question
              (filter_relevant_tables (schema_cache example_agent) tabbed_question)"
  have fl: "length (filter_relevant_tables example_schema tabbed_question) \<le> 100"
    by (simp add: filter_tabbed nl_def)
  have ql: "length tabbed_question \<le> 100"
    by (simp add: tabbed_question_def)
  have len: "length ?p \<le> max_prompt_tokens"
    using prompt_length [of tabbed_question "filter_relevant_tables example_schema tabbed_question"]
      fl ql
    by (simp add: example_agent_def max_prompt_tokens_def max_context_tokens_def
        max_response_tokens_def)
  have tok: "llm_tokenize (llm example_agent) ?p = Inr (map of_char ?p)"
    by (simp add: example_agent_def example_llm_def)
  have ne: "tabbed_question \<noteq> []" "sanitize_input tabbed_question \<noteq> tabbed_question"
    by (simp_all add: sanitize_tabbed) (simp_all add: tabbed_question_def)
  have ld: "is_loaded (llm example_agent)" "sent (llm example_agent) = []"
    by (simp_all add: example_agent_def example_llm_def)
  from sanitization_is_local [of example_agent tabbed_question]
    validate_query_tabbed ne ld tok len
  show ?thesis
    by (simp add: example_agent_def)
qed

text \<open>
  C2. A prompt of 15361 tokens, one more than the budget of 15360. \<open>generate_sql\<close>
  detokenizes the first 15360 tokens, but the text it sends to the backend is the wrapped
  prompt it built before, from the whole prompt, and not the wrapped truncated prompt.
\<close>
theorem generate_sql_sends_untruncated_prompt:
  "llm_tokenize example_llm long_prompt = Inr (replicate 15361 97) \<and>
   max_prompt_tokens = 15360 \<and>
   llm_detokenize example_llm (take max_prompt_tokens (replicate 15361 97)) =
     Inr (replicate 15360 (CHR ''a'')) \<and>
   sent (snd (generate_sql example_llm long_prompt)) = [wrap_prompt long_prompt] \<and>
   wrap_prompt long_prompt \<noteq> wrap_prompt (replicate 15360 (CHR ''a''))"
proof -
  have mx: "max_prompt_tokens = 15360"
    by (simp add: max_prompt_tokens_def max_context_tokens_def max_response_tokens_def)
  have a: "of_char (CHR ''a'') = (97::nat)" "char_of (97::nat) = CHR ''a''"
    by (simp_all add: char_of_def bit_Suc_0_iff)
  have tok: "llm_tokenize example_llm long_prompt = Inr (replicate 15361 97)"
    by (simp add: example_llm_def long_prompt_def a)
  have detok: "llm_detokenize example_llm (take max_prompt_tokens (replicate 15361 97)) =
     Inr (replicate 15360 (CHR ''a''))"
    by (simp add: example_llm_def mx a)
  have snt: "sent (snd (generate_sql example_llm long_prompt)) = [wrap_prompt long_prompt]"
    using tok detok
    by (simp add: generate_sql_def Let_def mx example_llm_loaded)
      (simp add: example_llm_def)
  have ne: "wrap_prompt long_prompt \<noteq> wrap_prompt (replicate 15360 (CHR ''a''))"
    by (simp add: wrap_prompt_def long_prompt_def)
  from mx tok detok snt ne show ?thesis by blast
qed

section \<open>The relevance filter\<close>

lemma fold_matching:
  "fold (\<lambda>table relevant. if P table then insert (name table) relevant else relevant) ts acc =
     acc \<union> name ` {t \<in> set ts. P t}"
  by (induction ts arbitrary: acc) auto

lemma matching_tables_eq:
  "matching_tables sch q =
     name ` {t \<in> set (tables sch). contains (lower q) (lower (name t))}"
  by (simp add: matching_tables_def Let_def fold_matching)

lemma relevant_when_matching:
  assumes "\<exists>t \<in> set (tables sch). contains (lower q) (lower (name t))"
    and "t \<in> set (tables sch)"
  shows "name t \<in> relevant_tables sch q \<longleftrightarrow> contains (lower q) (lower (name t))"
proof -
  from assms(1) have "matching_tables sch q \<noteq> {}"
    by (auto simp: matching_tables_eq)
  then have "relevant_tables sch q = matching_tables sch q"
    by (simp add: relevant_tables_def Let_def)
  with assms(2) show ?thesis
    by (auto simp: matching_tables_eq)
qed

lemma relevant_when_none:
  assumes "\<not> (\<exists>t \<in> set (tables sch). contains (lower q) (lower (name t)))"
    and "t \<in> set (tables sch)"
  shows "name t \<in> relevant_tables sch q \<longleftrightarrow> name t \<in> set fallback_tables"
proof -
  from assms(1) have "matching_tables sch q = {}"
    by (auto simp: matching_tables_eq)
  then have "relevant_tables sch q =
      set (filter (\<lambda>n. n \<in> set (map name (tables sch))) fallback_tables)"
    by (simp add: relevant_tables_def Let_def)
  with assms(2) show ?thesis
    by auto
qed

text \<open>
  C8. When the lowercased name of some table of the schema occurs in the lowercased
  question, the rendered text lists, in schema order, exactly the tables whose lowercased
  name occurs in it. When no table matches, it lists exactly the tables of the schema
  whose name is one of the fixed default names.
\<close>
theorem filter_relevant_tables_selection:
  "((\<exists>t \<in> set (tables sch). contains (lower q) (lower (name t))) \<longrightarrow>
      filter_relevant_tables sch q =
        ''### DATABASE SCHEMA'' @ nl @ nl @
        concat (map format_table
          (filter (\<lambda>t. contains (lower q) (lower (name t))) (tables sch)))) \<and>
   (\<not> (\<exists>t \<in> set (tables sch). contains (lower q) (lower (name t))) \<longrightarrow>
      filter_relevant_tables sch q =
        ''### DATABASE SCHEMA'' @ nl @ nl @
        concat (map format_table
          (filter (\<lambda>t. name t \<in> set fallback_tables) (tables sch))))"
proof (intro conjI impI)
  assume m: "\<exists>t \<in> set (tables sch). contains (lower q) (lower (name t))"
  have "filter (\<lambda>t. name t \<in> relevant_tables sch q) (tables sch) =
        filter (\<lambda>t. contains (lower q) (lower (name t))) (tables sch)"
    by (rule filter_cong [OF refl]) (rule relevant_when_matching [OF m])
  then show "filter_relevant_tables sch q =
        ''### DATABASE SCHEMA'' @ nl @ nl @
        concat (map format_table
          (filter (\<lambda>t. contains (lower q) (lower (name t))) (tables sch)))"
    by (simp add: filter_relevant_tables_def)
next
  assume m: "\<not> (\<exists>t \<in> set (tables sch). contains (lower q) (lower (name t)))"
  have "filter (\<lambda>t. name t \<in> relevant_tables sch q) (tables sch) =
        filter (\<lambda>t. name t \<in> set fallback_tables) (tables sch)"
    by (rule filter_cong [OF refl]) (rule relevant_when_none [OF m])
  then show "filter_relevant_tables sch q =
        ''### DATABASE SCHEMA'' @ nl @ nl @
        concat (map format_table
          (filter (\<lambda>t. name t \<in> set fallback_tables) (tables sch)))"
    by (simp add: filter_relevant_tables_def)
qed

lemma example_match:
  "(\<exists>t \<in> set (tables example_schema). contains (lower ''How many orders'') (lower (name t)))"
  by (simp add: example_schema_def str_defs char_tabs)

lemma example_no_match:
  "\<not> (\<exists>t \<in> set (tables example_schema). contains (lower ''List everything'') (lower (name t)))"
  by (simp add: example_schema_def str_defs char_tabs)

theorem filter_relevant_tables_selection_witness:
  "(\<exists>t \<in> set (tables example_schema). contains (lower ''How many orders'') (lower (name t))) \<and>
   filter_relevant_tables example_schema ''How many orders'' =
     ''### DATABASE SCHEMA'' @ nl @ nl @ ''orders(id INTEGER PK NN, total REAL);'' @ nl \<and>
   \<not> (\<exists>t \<in> set (tables example_schema).
         contains (lower ''List everything'') (lower (name t))) \<and>
   filter_relevant_tables example_schema ''List everything'' =
     ''### DATABASE SCHEMA'' @ nl @ nl @ ''customer(id INTEGER PK NN, country TEXT);'' @ nl"
proof -
  have 1: "concat (map format_table
          (filter (\<lambda>t. contains (lower ''How many orders'') (lower (name t)))
             (tables example_schema))) = ''orders(id INTEGER PK NN, total REAL);'' @ nl"
    by (simp add: example_schema_def format_table_def column_def_def str_defs char_tabs)
  have 2: "concat (map format_table
          (filter (\<lambda>t. name t \<in> set fallback_tables) (tables example_schema))) =
        ''customer(id INTEGER PK NN, country TEXT);'' @ nl"
    by (simp add: example_schema_def fallback_tables_def format_table_def column_def_def
        str_defs char_tabs)
  from filter_relevant_tables_selection [of example_schema "''How many orders''"]
    filter_relevant_tables_selection [of example_schema "''List everything''"]
    example_match example_no_match 1 2
  show ?thesis by simp
qed

section \<open>The aggregate call\<close>

text \<open>
  C6. \<open>validate_sql\<close> accepts the text \<open>SELECT COUNT(*) FROM orders\<close>: the denylist
  scans it with the call \<open>COUNT(*)\<close> erased, and the allowlist walk, having met the word
  \<open>COUNT\<close>, skips to the word after the closing parenthesis.
\<close>
theorem count_star_accepted:
  "validate_sql ''SELECT COUNT(*) FROM orders'' = (True, []) \<and>
   query_to_check ''SELECT COUNT(*) FROM orders'' = ''SELECT  FROM orders'' \<and>
   split_words (select_part ''SELECT COUNT(*) FROM orders'') [] [] False =
     [''SELECT'', ''COUNT'', ''('', ''*'', '')''] \<and>
   check_words [''COUNT'', ''('', ''*'', '')''] = check_words []"
proof -
  have "query_to_check ''SELECT COUNT(*) FROM orders'' = ''SELECT  FROM orders''"
    by (simp add: gate_a_defs)
  moreover have "check_words [''COUNT'', ''('', ''*'', '')''] = check_words []"
    by simp
  ultimately show ?thesis
    by (simp add: validate_sql_count_orders select_part_count_orders split_words_count_orders
        del: split_words.simps check_words.simps)
qed

section \<open>Semicolons in the denylist\<close>

lemma star_greedy_last: "\<exists>xs. star_greedy c p s g = xs @ [(p, s, g)]"
  by (induction s arbitrary: p) auto

lemma ms_semicolon:
  assumes "post \<noteq> []" and "post \<noteq> nl"
  shows "ms (seqs [liti '';'', Star Space, NotAhead Eos]) (p, CHR '';'' # post, []) \<noteq> []"
proof -
  obtain xs where xs: "star_greedy Space (Some (CHR '';'')) post [] = xs @ [(Some (CHR '';''), post, [])]"
    using star_greedy_last by blast
  from assms have "ms Eos (Some (CHR '';''), post, []) = []"
    by (simp add: nl_def)
  with xs show ?thesis
    by (simp add: seqs_def liti_def)
qed

lemma search_from_hit:
  assumes "ms r (p, s, []) \<noteq> []"
  shows "search_from r p s \<noteq> None"
  using assms by (cases s) (auto split: list.splits)

lemma search_from_later:
  assumes "\<And>p'. search_from r p' t \<noteq> None"
  shows "search_from r p (pre @ t) \<noteq> None"
proof (induction pre arbitrary: p)
  case Nil
  show ?case using assms by simp
next
  case (Cons x pre)
  show ?case using Cons.IH [of "Some x"] by (auto split: list.splits)
qed

lemma semicolon_pattern_found:
  assumes "s = pre @ '';'' @ post" and "post \<noteq> []" and "post \<noteq> nl"
  shows "re_search (seqs [liti '';'', Star Space, NotAhead Eos]) s"
proof -
  have "\<And>p'. search_from (seqs [liti '';'', Star Space, NotAhead Eos]) p' (CHR '';'' # post) \<noteq> None"
    by (rule search_from_hit) (rule ms_semicolon [OF assms(2,3)])
  then have "search_from (seqs [liti '';'', Star Space, NotAhead Eos]) None (pre @ CHR '';'' # post) \<noteq> None"
    by (rule search_from_later)
  with assms(1) show ?thesis
    by (simp add: re_search_def)
qed

lemma semicolon_pattern_listed:
  "('';'' @ bs @ ''s*(?!$)'', seqs [liti '';'', Star Space, NotAhead Eos]) \<in> set dangerous_patterns"
  by (simp add: dangerous_patterns_def)

lemma rejected_when_found:
  assumes "(pattern, r) \<in> set dangerous_patterns" and "re_search r (query_to_check q)"
  shows "\<exists>m. validate_sql_injection q = Inl (SecurityError m)"
proof -
  from assms have "find (\<lambda>(pattern, r). re_search r (query_to_check q)) dangerous_patterns \<noteq> None"
    by (auto simp: find_None_iff)
  then show ?thesis
    by (auto simp: validate_sql_injection_def split: option.splits)
qed

lemma rstrip_chars_trailing:
  "rstrip_chars '';'' (q @ replicate n (CHR '';'')) = rstrip_chars '';'' q"
proof -
  have "dropWhile (\<lambda>c. c = CHR '';'') (replicate n (CHR '';'') @ rev q) =
        dropWhile (\<lambda>c. c = CHR '';'') (rev q)"
    by (rule dropWhile_append2) simp
  then show ?thesis
    by (simp add: rstrip_chars_def)
qed

text \<open>
  C5, as the denylist does it. The denylist strips all trailing semicolons, not one, and
  erases the bare aggregate calls. It then rejects every text in which, after these two
  steps, a semicolon is followed by at least one character, a single final line feed apart.
  Trailing semicolons never change its verdict.
\<close>
theorem gate_a_semicolons:
  "rstrip_chars '';'' (q @ replicate n (CHR '';'')) = rstrip_chars '';'' q \<and>
   (\<forall>pre post. query_to_check q = pre @ '';'' @ post \<and> post \<noteq> [] \<and> post \<noteq> nl \<longrightarrow>
      (\<exists>m. validate_sql_injection q = Inl (SecurityError m))) \<and>
   validate_sql_injection (q @ replicate n (CHR '';'')) = validate_sql_injection q"
proof (intro conjI allI impI)
  show "rstrip_chars '';'' (q @ replicate n (CHR '';'')) = rstrip_chars '';'' q"
    by (rule rstrip_chars_trailing)
next
  fix pre post
  assume "query_to_check q = pre @ '';'' @ post \<and> post \<noteq> [] \<and> post \<noteq> nl"
  then have "re_search (seqs [liti '';'', Star Space, NotAhead Eos]) (query_to_check q)"
    by (blast intro: semicolon_pattern_found)
  with semicolon_pattern_listed show "\<exists>m. validate_sql_injection q = Inl (SecurityError m)"
    by (rule rejected_when_found)
next
  show "validate_sql_injection (q @ replicate n (CHR '';'')) = validate_sql_injection q"
    by (simp add: validate_sql_injection_def query_to_check_def rstrip_chars_trailing)
qed

theorem gate_a_semicolons_witness:
  "query_to_check ''SELECT 1;x'' = ''SELECT 1'' @ '';'' @ ''x'' \<and>
   (\<exists>m. validate_sql_injection ''SELECT 1;x'' = Inl (SecurityError m)) \<and>
   validate_sql_injection (''SELECT 1'' @ replicate 2 (CHR '';'')) = validate_sql_injection ''SELECT 1''"
proof -
  have q: "query_to_check ''SELECT 1;x'' = ''SELECT 1'' @ '';'' @ ''x''"
    by (simp add: gate_a_defs)
  have "''x'' \<noteq> []" "''x'' \<noteq> nl"
    by (simp_all add: nl_def)
  with q gate_a_semicolons [of "''SELECT 1;x''" 0] gate_a_semicolons [of "''SELECT 1''" 2]
  show ?thesis by blast
qed

text \<open>
  C5 as stated fails: with a single trailing semicolon stripped, each of the three texts
  below has a semicolon that is not at the very end, and the denylist accepts it.
\<close>

theorem gate_a_single_semicolon_counterexample:
  "spec_semicolon_not_at_end (spec_strip_single_semicolon ''SELECT 1;;;'') \<and>
   validate_sql_injection ''SELECT 1;;;'' = Inr True \<and>
   spec_semicolon_not_at_end (spec_strip_single_semicolon (''SELECT 1;'' @ nl)) \<and>
   validate_sql_injection (''SELECT 1;'' @ nl) = Inr True \<and>
   spec_semicolon_not_at_end (spec_strip_single_semicolon ''SELECT a FROM t;COUNT(*)'') \<and>
   validate_sql_injection ''SELECT a FROM t;COUNT(*)'' = Inr True"
proof -
  have "validate_sql_injection ''SELECT 1;;;'' = Inr True"
    by (simp add: gate_a_defs)
  moreover have "validate_sql_injection (''SELECT 1;'' @ nl) = Inr True"
    by (simp add: nl_def gate_a_defs)
  moreover have "validate_sql_injection ''SELECT a FROM t;COUNT(*)'' = Inr True"
    by (simp add: gate_a_defs)
  ultimately show ?thesis
    by (simp add: spec_semicolon_not_at_end_def spec_strip_single_semicolon_def nl_def)
qed

section \<open>Extraction of a clean statement\<close>

lemma star_greedy_states:
  "(p', t', g') \<in> set (star_greedy c p t g) \<Longrightarrow> suffix t' t \<and> g' = g"
  by (induction t arbitrary: p) (auto simp: suffix_Cons split: if_splits)

lemma star_lazy_states:
  "(p', t', g') \<in> set (star_lazy c p t g) \<Longrightarrow> suffix t' t \<and> g' = g"
  by (induction t arbitrary: p) (auto simp: suffix_Cons split: if_splits)

lemma ms_states:
  "no_groups r \<Longrightarrow> (p', t', g') \<in> set (ms r (p, t, g)) \<Longrightarrow> suffix t' t \<and> g' = g"
proof (induction r arbitrary: p t g p' t' g')
  case (One c)
  then show ?case by (auto simp: suffix_Cons split: list.splits if_splits)
next
  case (Star c)
  then show ?case by (auto dest: star_greedy_states)
next
  case (Lazy c)
  then show ?case by (auto dest: star_lazy_states)
next
  case (Seq a b)
  from Seq.prems obtain pm tm gm where
    m: "(pm, tm, gm) \<in> set (ms a (p, t, g))" and e: "(p', t', g') \<in> set (ms b (pm, tm, gm))"
    by auto
  from Seq.IH(1) [OF _ m] Seq.prems(1) have "suffix tm t \<and> gm = g" by simp
  moreover from Seq.IH(2) [OF _ e] Seq.prems(1) have "suffix t' tm \<and> g' = gm" by simp
  ultimately show ?case by (auto intro: suffix_order.trans)
next
  case (Alt a b)
  then show ?case by auto
next
  case Eos
  then show ?case by (auto split: if_splits)
next
  case (NotAhead r)
  then show ?case by (auto split: if_splits)
next
  case Wb
  then show ?case by (auto split: if_splits)
next
  case (Group r)
  then show ?case by simp
next
  case Epsilon
  then show ?case by simp
qed

lemma ms_lit_startswith:
  "ms (lit w) (p, t, g) \<noteq> [] \<Longrightarrow> startswith t w"
proof (induction w arbitrary: p t)
  case Nil
  then show ?case by simp
next
  case (Cons c w)
  then show ?case
    by (cases t) (auto simp: lit_def seqs_def split: if_splits)
qed

lemma code_block_needs_fence:
  assumes "\<not> startswith t ''```''"
  shows "ms code_block (p, t, []) = []"
proof -
  from assms have "ms (lit ''```'') (p, t, []) = []"
    using ms_lit_startswith by blast
  then show ?thesis
    by (simp add: code_block_def seqs_def)
qed

lemma no_code_block:
  assumes "\<not> contains s ''```''"
  shows "search_from code_block p s = None"
  using assms
proof (induction s arbitrary: p)
  case Nil
  then show ?case by (simp add: code_block_needs_fence)
next
  case (Cons x xs)
  then show ?case by (simp add: code_block_needs_fence)
qed

lemma liti_match:
  "map lower_char kw = map lower_char pat \<Longrightarrow>
   \<exists>p'. (p', t, g) \<in> set (ms (liti pat) (p, kw @ t, g))"
proof (induction pat arbitrary: kw p)
  case Nil
  then show ?case by (simp add: liti_def seqs_def)
next
  case (Cons c pat)
  then obtain k kw' where kw: "kw = k # kw'" "lower_char k = lower_char c"
    "map lower_char kw' = map lower_char pat"
    by (cases kw) auto
  from Cons.IH [OF kw(3), of "Some k"] obtain p' where
    "(p', t, g) \<in> set (ms (liti pat) (Some k, kw' @ t, g))" by blast
  with kw show ?case
    by (auto simp: liti_def seqs_def)
qed

lemma star_lazy_any_end: "\<exists>p'. (p', [], g) \<in> set (star_lazy Any p t g)"
  by (induction t arbitrary: p) auto

lemma star_greedy_zero: "(p, t, g) \<in> set (star_greedy c p t g)"
  by (cases t) auto

lemma keyword_match:
  assumes "lower kw = ''select'' \<or> lower kw = ''with''"
  shows "\<exists>p'. (p', t, g) \<in> set (ms (Alt (liti ''SELECT'') (liti ''WITH'')) (p, kw @ t, g))"
proof -
  from assms have "map lower_char kw = map lower_char ''SELECT'' \<or>
      map lower_char kw = map lower_char ''WITH''"
    by (simp add: lower_def lower_char_ascii)
  then show ?thesis
    using liti_match [of kw "''SELECT''" t g p] liti_match [of kw "''WITH''" t g p]
    by auto
qed

lemma ms_seq_intro:
  "m \<in> set (ms a st) \<Longrightarrow> e \<in> set (ms b m) \<Longrightarrow> e \<in> set (ms (Seq a b) st)"
  by auto

lemma statement_matches:
  assumes "lower kw = ''select'' \<or> lower kw = ''with''" and "isspace_char w"
  shows "\<exists>p'. (p', [], []) \<in> set (ms sql_statement (None, kw @ w # rest, []))"
proof -
  from keyword_match [OF assms(1)] obtain p1 where
    1: "(p1, w # rest, []) \<in> set (ms (Alt (liti ''SELECT'') (liti ''WITH'')) (None, kw @ w # rest, []))"
    by blast
  have 2: "(Some w, rest, []) \<in> set (ms (one_or_more Space) (p1, w # rest, []))"
    using assms(2) star_greedy_zero [of "Some w" rest "[]" Space] by (simp add: one_or_more_def)
  from star_lazy_any_end [of "[]" "Some w" rest] obtain p3 where
    3: "(p3, [], []) \<in> set (ms (Lazy Any) (Some w, rest, []))"
    by auto
  have 4: "(p3, [], []) \<in> set (ms (Seq (Alt (liti '';'') Eos) Epsilon) (p3, [], []))"
    by simp
  have "(p3, [], []) \<in> set (ms (Seq (Alt (liti ''SELECT'') (liti ''WITH''))
           (Seq (one_or_more Space) (Seq (Lazy Any) (Seq (Alt (liti '';'') Eos) Epsilon))))
           (None, kw @ w # rest, []))"
    by (rule ms_seq_intro [OF 1], rule ms_seq_intro [OF 2], rule ms_seq_intro [OF 3], rule 4)
  then have "(p3, [], []) \<in> set (ms sql_statement (None, kw @ w # rest, []))"
    by (simp only: sql_statement_def seqs_def foldr.simps o_apply id_apply)
  then show ?thesis by blast
qed

lemma lower_char_semicolon:
  assumes "lower_char x = lower_char (CHR '';'')"
  shows "x = CHR '';''"
proof -
  from assms have h: "lower_char x = CHR '';''"
    by (simp add: lower_char_ascii)
  show ?thesis
  proof (cases "(65 \<le> code x \<and> code x \<le> 90) \<or> (192 \<le> code x \<and> code x \<le> 214) \<or>
                (216 \<le> code x \<and> code x \<le> 222)")
    case True
    with h have "char_of (code x + 32) = CHR '';''"
      by (simp add: lower_char_def Let_def)
    then have "of_char (char_of (code x + 32) :: char) = (of_char (CHR '';'') :: nat)"
      by simp
    then have "(code x + 32) mod 256 = 59"
      by simp
    with True show ?thesis by auto
  next
    case False
    with h show ?thesis by (simp add: lower_char_def Let_def)
  qed
qed

lemma strip_fixed_last:
  assumes "strip s = s" and "s \<noteq> []"
  shows "\<not> isspace_char (last s)"
proof -
  from assms(1) have "rev s = dropWhile isspace_char (rev (lstrip s))"
    by (metis rev_rev_ident rstrip_def strip_def)
  moreover from assms(2) have "rev s \<noteq> []" by simp
  ultimately have "\<not> isspace_char (hd (rev s))"
    by (metis hd_dropWhile)
  with assms(2) show ?thesis by (simp add: hd_rev)
qed

lemma ms_seq_elim:
  assumes "e \<in> set (ms (Seq a b) st)"
  obtains m where "m \<in> set (ms a st)" and "e \<in> set (ms b m)"
  using assms by auto

lemma semicolon_only_last:
  assumes "CHR '';'' \<notin> set (butlast s)" and "suffix (CHR '';'' # t) s"
  shows "t = []"
proof (rule ccontr)
  assume "t \<noteq> []"
  from assms(2) obtain pre where "s = pre @ CHR '';'' # t"
    by (auto simp: suffix_def)
  with \<open>t \<noteq> []\<close> have "butlast s = pre @ CHR '';'' # butlast t"
    by (simp add: butlast_append)
  with assms(1) show False by simp
qed

lemma statement_ends:
  assumes "strip s = s" and "CHR '';'' \<notin> set (butlast s)"
    and "(p', t', g') \<in> set (ms sql_statement (None, s, []))"
  shows "t' = [] \<and> g' = []"
proof -
  from assms(3) have "(p', t', g') \<in> set (ms (Seq (Alt (liti ''SELECT'') (liti ''WITH''))
           (Seq (one_or_more Space) (Seq (Lazy Any) (Seq (Alt (liti '';'') Eos) Epsilon))))
           (None, s, []))"
    by (simp only: sql_statement_def seqs_def foldr.simps o_apply id_apply)
  then obtain m1 m2 m3 where
    1: "m1 \<in> set (ms (Alt (liti ''SELECT'') (liti ''WITH'')) (None, s, []))" and
    2: "m2 \<in> set (ms (one_or_more Space) m1)" and
    3: "m3 \<in> set (ms (Lazy Any) m2)" and
    4: "(p', t', g') \<in> set (ms (Seq (Alt (liti '';'') Eos) Epsilon) m3)"
    by (elim ms_seq_elim) (blast intro: ms_seq_intro)
  obtain p1 t1 g1 where m1: "m1 = (p1, t1, g1)" by (cases m1)
  obtain p2 t2 g2 where m2: "m2 = (p2, t2, g2)" by (cases m2)
  obtain p3 t3 g3 where m3: "m3 = (p3, t3, g3)" by (cases m3)
  have ng: "no_groups (Alt (liti ''SELECT'') (liti ''WITH''))" "no_groups (one_or_more Space)"
    "no_groups (Lazy Any)"
    by (simp_all add: liti_def seqs_def one_or_more_def)
  from ms_states [OF ng(1)] 1 m1 have s1: "suffix t1 s" "g1 = []" by auto
  from ms_states [OF ng(2)] 2 m1 m2 have s2: "suffix t2 t1" "g2 = g1" by auto
  from ms_states [OF ng(3)] 3 m2 m3 have s3: "suffix t3 t2" "g3 = g2" by auto
  from s1 s2 s3 have suf: "suffix t3 s" and g3: "g3 = []"
    by (auto intro: suffix_order.trans)
  from 4 m3 g3 have
    "(\<exists>x. t3 = x # t' \<and> lower_char x = lower_char (CHR '';'') \<and> g' = []) \<or>
     ((t3 = [] \<or> t3 = [CHR 0x0A]) \<and> t' = t3 \<and> g' = [])"
    by (auto simp: liti_def seqs_def split: list.splits if_splits)
  then show ?thesis
  proof
    assume "\<exists>x. t3 = x # t' \<and> lower_char x = lower_char (CHR '';'') \<and> g' = []"
    then obtain x where x: "t3 = x # t'" "lower_char x = lower_char (CHR '';'')" "g' = []"
      by blast
    then have "x = CHR '';''" by (simp add: lower_char_semicolon)
    with x suf assms(2) show ?thesis by (simp add: semicolon_only_last)
  next
    assume "(t3 = [] \<or> t3 = [CHR 0x0A]) \<and> t' = t3 \<and> g' = []"
    then have e: "t3 = [] \<or> t3 = [CHR 0x0A]" "t' = t3" "g' = []"
      by simp_all
    show ?thesis
    proof (cases "t3 = []")
      case True
      with e show ?thesis by simp
    next
      case False
      with e have t3: "t3 = [CHR 0x0A]" by simp
      with suf obtain pre where "s = pre @ [CHR 0x0A]" by (auto simp: suffix_def)
      then have "s \<noteq> []" "last s = CHR 0x0A" by simp_all
      with strip_fixed_last [OF assms(1)] show ?thesis
        by (simp add: isspace_char_ascii)
    qed
  qed
qed

text \<open>
  C7, as \<open>_parse_sql\<close> does it. A trimmed text without a code fence that begins with
  \<open>SELECT\<close> or \<open>WITH\<close>, in any letter case, followed by a whitespace character, and
  that has no semicolon before its last character, is returned unchanged.
\<close>
theorem parse_sql_clean_statement:
  assumes "strip s = s" and "\<not> contains s ''```''"
    and "s = kw @ w # rest" and "lower kw = ''select'' \<or> lower kw = ''with''"
    and "isspace_char w"
    and "CHR '';'' \<notin> set (butlast s)"
  shows "parse_sql s = s"
proof -
  have fence: "findall_first code_block s = None"
    by (simp add: findall_first_def no_code_block [OF assms(2)])
  from statement_matches [OF assms(4,5), of rest] assms(3)
  have "ms sql_statement (None, s, []) \<noteq> []" by auto
  then obtain st more where ms: "ms sql_statement (None, s, []) = st # more"
    by (cases "ms sql_statement (None, s, [])") auto
  obtain p' t' g' where st: "st = (p', t', g')" by (cases st)
  from statement_ends [OF assms(1,6), of p' t' g'] ms st have e: "t' = []" "g' = []"
    by simp_all
  from assms(3) obtain x xs where s: "s = x # xs" by (cases kw) auto
  from ms st e s have "search_from sql_statement None s = Some (s, (p', [], []))"
    by simp
  then have "findall_first sql_statement s = Some s"
    by (simp add: findall_first_def)
  with fence assms(1) show ?thesis
    by (simp add: parse_sql_def)
qed

theorem parse_sql_clean_statement_witness:
  "strip ''SELECT a FROM t;'' = ''SELECT a FROM t;'' \<and>
   \<not> contains ''SELECT a FROM t;'' ''```'' \<and>
   lower ''SELECT'' = ''select'' \<and> isspace_char (CHR '' '') \<and>
   CHR '';'' \<notin> set (butlast ''SELECT a FROM t;'') \<and>
   parse_sql ''SELECT a FROM t;'' = ''SELECT a FROM t;''"
proof -
  have 1: "strip ''SELECT a FROM t;'' = ''SELECT a FROM t;''"
    by (simp add: str_defs char_tabs)
  have 2: "\<not> contains ''SELECT a FROM t;'' ''```''"
    by simp
  have 3: "''SELECT a FROM t;'' = ''SELECT'' @ CHR '' '' # ''a FROM t;''"
    by simp
  have 4: "lower ''SELECT'' = ''select'' \<or> lower ''SELECT'' = ''with''"
    by (simp add: str_defs char_tabs)
  have 5: "isspace_char (CHR '' '')"
    by (simp add: char_tabs)
  have 6: "CHR '';'' \<notin> set (butlast ''SELECT a FROM t;'')"
    by simp
  from parse_sql_clean_statement [OF 1 2 3 4 5 6] 1 2 4 5 6 show ?thesis
    by (simp add: str_defs char_tabs)
qed

text \<open>
  C7 as stated fails on clean statements: a semicolon inside a string literal ends the
  extracted text, and a statement whose first \<open>SELECT\<close> is not followed by whitespace
  is extracted from its inner \<open>SELECT\<close> on. Both texts are trimmed and have no fence.
\<close>
theorem parse_sql_idempotent_counterexample:
  "strip quoted_semicolon_query = quoted_semicolon_query \<and>
   \<not> contains quoted_semicolon_query ''```'' \<and>
   parse_sql quoted_semicolon_query = ''SELECT name FROM t WHERE note = '' @ [CHR 0x27] @ ''a;'' \<and>
   parse_sql quoted_semicolon_query \<noteq> quoted_semicolon_query \<and>
   strip ''SELECT*, b FROM (SELECT c FROM t)'' = ''SELECT*, b FROM (SELECT c FROM t)'' \<and>
   \<not> contains ''SELECT*, b FROM (SELECT c FROM t)'' ''```'' \<and>
   parse_sql ''SELECT*, b FROM (SELECT c FROM t)'' = ''SELECT c FROM t)''"
proof -
  have "parse_sql quoted_semicolon_query = ''SELECT name FROM t WHERE note = '' @ [CHR 0x27] @ ''a;''"
    by (simp add: quoted_semicolon_query_def parse_sql_def findall_first_def code_block_def
        sql_statement_def rx_defs str_defs char_tabs)
  moreover have "parse_sql ''SELECT*, b FROM (SELECT c FROM t)'' = ''SELECT c FROM t)''"
    by (simp add: parse_sql_def findall_first_def code_block_def
        sql_statement_def rx_defs str_defs char_tabs)
  moreover have "strip quoted_semicolon_query = quoted_semicolon_query"
    by (simp add: quoted_semicolon_query_def str_defs char_tabs)
  moreover have "strip ''SELECT*, b FROM (SELECT c FROM t)'' = ''SELECT*, b FROM (SELECT c FROM t)''"
    by (simp add: str_defs char_tabs)
  ultimately show ?thesis
    by (simp add: quoted_semicolon_query_def)
qed

end
